theory Spec2Isabelle
  imports Main "HOL-Library.AList"
begin

section \<open>Python values and the library the adapters call\<close>

text \<open>
  The four adapters (\<^verbatim>\<open>d3p_openai_tool.py\<close>, \<^verbatim>\<open>d3p_mcp_tool.py\<close>,
  \<^verbatim>\<open>d3p_langchain_tool.py\<close>, \<^verbatim>\<open>d3p_crewai_tool.py\<close>) are Python. A Python
  \<^verbatim>\<open>str\<close> is a \<open>string\<close> here, one \<open>char\<close> standing for one character of the
  \<^verbatim>\<open>str\<close>; a Python \<^verbatim>\<open>int\<close> is an \<open>int\<close>; a \<^verbatim>\<open>dict\<close> whose keys are computed is
  an association list in insertion order, written with \<open>AList.update\<close> (an existing key
  keeps its place and takes the new value, a new key goes last) and read with \<open>map_of\<close>.
  A JSON document that \<^verbatim>\<open>json.loads\<close> or \<^verbatim>\<open>resp.json()\<close> returns, or that
  \<^verbatim>\<open>json.dumps\<close> takes, is a \<open>jvalue\<close> (numbers are integers: the adapters only
  ever build integers themselves).
\<close>

datatype jvalue =
    JNull
  | JBool bool
  | JInt int
  | JStr string
  | JArr "jvalue list"
  | JObj "(string \<times> jvalue) list"

text \<open>The exceptions that can leave a function of the adapters.\<close>

datatype py_exception =
    KeyError string
  | JSONDecodeError
  | RecursionError
  | ValueError
  | HTTPError
  | RequestException

text \<open>\<^verbatim>\<open>d.get(key, default)\<close> on a key that may be absent.\<close>

definition get_default :: "'a option \<Rightarrow> 'a \<Rightarrow> 'a" where
  "get_default v d = (case v of None \<Rightarrow> d | Some x \<Rightarrow> x)"

text \<open>\<^verbatim>\<open>s.startswith(p)\<close>.\<close>

definition startswith :: "string \<Rightarrow> string \<Rightarrow> bool" where
  "startswith s p = (take (length p) s = p)"

text \<open>\<^verbatim>\<open>sep.join(xs)\<close>.\<close>

fun join :: "string \<Rightarrow> string list \<Rightarrow> string" where
  "join sep [] = []"
| "join sep [x] = x"
| "join sep (x # y # ys) = x @ sep @ join sep (y # ys)"

text \<open>\<^verbatim>\<open>x or d\<close> on a \<^verbatim>\<open>str\<close>: the empty string is false.\<close>

definition str_or :: "string \<Rightarrow> string \<Rightarrow> string" where
  "str_or x d = (if x = [] then d else x)"

text \<open>The decimal text of an integer, as an f-string \<^verbatim>\<open>{n}\<close> renders it.\<close>

definition digit_char :: "nat \<Rightarrow> char" where
  "digit_char d =
     (if d = 0 then CHR ''0'' else if d = 1 then CHR ''1'' else if d = 2 then CHR ''2''
      else if d = 3 then CHR ''3'' else if d = 4 then CHR ''4'' else if d = 5 then CHR ''5''
      else if d = 6 then CHR ''6'' else if d = 7 then CHR ''7'' else if d = 8 then CHR ''8''
      else CHR ''9'')"

fun str_nat :: "nat \<Rightarrow> string" where
  "str_nat n =
     (if n < 10 then [digit_char n] else str_nat (n div 10) @ [digit_char (n mod 10)])"

declare str_nat.simps [simp del]

definition str_int :: "int \<Rightarrow> string" where
  "str_int i = (if i < 0 then CHR ''-'' # str_nat (nat (- i)) else str_nat (nat i))"

subsection \<open>HTTP\<close>

text \<open>
  \<^verbatim>\<open>requests.post(url, json=..., headers=..., timeout=...)\<close>: the arguments of the call,
  and the response object as far as the adapters read it. \<open>resp_json\<close> is the outcome
  of \<^verbatim>\<open>resp.json()\<close>: \<open>None\<close> when it raises (the body is not JSON).
\<close>

record http_request =
  url :: string
  json :: jvalue
  headers :: "(string \<times> string) list"
  timeout :: nat

record http_response =
  status_code :: int
  resp_text :: string
  resp_json :: "jvalue option"

subsection \<open>The manifest\<close>

text \<open>
  One entry of the manifest's \<^verbatim>\<open>services\<close> array. The adapters read it with
  \<^verbatim>\<open>svc["service_id"]\<close> (a \<^verbatim>\<open>KeyError\<close> when absent) and \<^verbatim>\<open>svc.get(key, default)\<close>, so
  every key is optional here: \<open>None\<close> is an absent key. A key that is present holds a
  value of the type the manifest format gives it (a string, an integer number of sats, an
  object of properties each with an optional \<^verbatim>\<open>type\<close> and \<^verbatim>\<open>description\<close>).
\<close>

record prop_schema =
  prop_type :: "string option"
  prop_description :: "string option"

record schema =
  properties :: "(string \<times> prop_schema) list option"

record price =
  sats :: "int option"

record service =
  service_id :: "string option"
  endpoint :: "string option"
  name :: "string option"
  description :: "string option"
  capability_category :: "string option"
  pricing :: "price option"
  input_schema :: "schema option"

text \<open>
  The response to the manifest request: whether \<^verbatim>\<open>raise_for_status()\<close> raises, and the
  outcome of \<^verbatim>\<open>resp.json()\<close>: \<open>None\<close> when the body is not JSON, otherwise the
  document with its \<^verbatim>\<open>services\<close> key (\<open>None\<close> when the key is absent).
\<close>

record manifest_doc =
  doc_services :: "service list option"

record manifest_response =
  http_error :: bool
  manifest_json :: "manifest_doc option"

subsection \<open>The library as an environment\<close>

text \<open>
  The adapters call \<^verbatim>\<open>json.loads\<close>, \<^verbatim>\<open>json.dumps\<close>, \<^verbatim>\<open>requests.get\<close> and
  \<^verbatim>\<open>requests.post\<close>. They are parameters of the model: \<open>json_loads\<close> gives the value
  (\<open>Inr\<close>) or the exception \<^verbatim>\<open>json.loads\<close> raises (\<open>Inl\<close>), \<open>json_dumps\<close> takes the
  value and the \<^verbatim>\<open>indent\<close> argument, and the two requests give the exception they raise
  (\<open>Inl\<close>) or the response. Every function that can reach the network returns, beside
  its result, the list of the outbound calls it made, in order.

  \<^verbatim>\<open>json.loads\<close> rejects a string that is not JSON with \<^verbatim>\<open>JSONDecodeError\<close>, the one
  exception the adapters catch (\<^verbatim>\<open>except json.JSONDecodeError\<close>). On some strings it fails
  otherwise: \<^verbatim>\<open>RecursionError\<close> on a document nested deeper than the recursion limit
  of the interpreter, a plain \<^verbatim>\<open>ValueError\<close> on an integer literal longer than the
  digit limit. Those are not caught and leave the dispatcher.
\<close>

record env =
  json_loads :: "string \<Rightarrow> py_exception + jvalue"
  json_dumps :: "jvalue \<Rightarrow> nat option \<Rightarrow> string"
  requests_get :: "string \<Rightarrow> nat \<Rightarrow> py_exception + manifest_response"
  requests_post :: "http_request \<Rightarrow> py_exception + http_response"

datatype net_call =
    Get string nat
  | Post http_request

text \<open>\<^verbatim>\<open>_fetch_manifest(url)\<close>, the same in the four files.\<close>

definition fetch_manifest :: "env \<Rightarrow> string \<Rightarrow> (py_exception + service list) \<times> net_call list" where
  "fetch_manifest E manifest_url =
     (case requests_get E manifest_url 10 of
        Inl ex \<Rightarrow> (Inl ex, [Get manifest_url 10])
      | Inr resp \<Rightarrow>
          (if http_error resp then Inl HTTPError
           else (case manifest_json resp of
                   None \<Rightarrow> Inl JSONDecodeError
                 | Some doc \<Rightarrow>
                     (case doc_services doc of
                        None \<Rightarrow> Inl (KeyError ''services'')
                      | Some svcs \<Rightarrow> Inr svcs)),
           [Get manifest_url 10]))"

section \<open>The OpenAI wrapper: \<^verbatim>\<open>d3p_openai_tool.py\<close>\<close>

text \<open>
  \<^verbatim>\<open>self._services\<close> maps a function name to \<^verbatim>\<open>{**svc, "_endpoint": endpoint}\<close>: the
  manifest entry extended with the resolved endpoint (field \<open>x_endpoint\<close>).
\<close>

record loaded_service = service +
  x_endpoint :: string

record D3POpenAI =
  base_url :: string
  mock_payments :: bool
  services :: "(string \<times> loaded_service) list"

text \<open>The loop of \<^verbatim>\<open>D3POpenAI.__init__\<close> over the fetched entries.\<close>

fun load_services ::
  "string \<Rightarrow> service list \<Rightarrow> (string \<times> loaded_service) list
     \<Rightarrow> py_exception + (string \<times> loaded_service) list" where
  "load_services base [] tbl = Inr tbl"
| "load_services base (svc # rest) tbl =
     (case service_id svc of
        None \<Rightarrow> Inl (KeyError ''service_id'')
      | Some sid \<Rightarrow>
          (let ep = get_default (endpoint svc) (''/api/services/'' @ sid);
               ep = (if \<not> startswith ep ''http'' then base @ ep else ep)
           in load_services base rest
                (AList.update (''d3p_'' @ sid)
                   (service.extend svc (loaded_service.fields ep)) tbl)))"

definition D3POpenAI_init ::
  "env \<Rightarrow> string \<Rightarrow> string \<Rightarrow> bool \<Rightarrow> (py_exception + D3POpenAI) \<times> net_call list" where
  "D3POpenAI_init E manifest_url base mock =
     (case fetch_manifest E manifest_url of
        (Inl ex, calls) \<Rightarrow> (Inl ex, calls)
      | (Inr svcs, calls) \<Rightarrow>
          (case load_services base svcs [] of
             Inl ex \<Rightarrow> (Inl ex, calls)
           | Inr tbl \<Rightarrow>
               (Inr \<lparr>base_url = base, mock_payments = mock, services = tbl\<rparr>, calls)))"

text \<open>\<^verbatim>\<open>D3POpenAI.tool_definitions\<close>: one OpenAI tool per entry of the table.\<close>

record parameters =
  params_type :: string
  params_properties :: "(string \<times> prop_schema) list"
  params_required :: "string list"

record function_def =
  fn_name :: string
  fn_description :: string
  fn_parameters :: parameters

record tool_def =
  tool_type :: string
  tool_function :: function_def

definition tool_definition :: "string \<times> loaded_service \<Rightarrow> tool_def" where
  "tool_definition entry =
     (case entry of (func_name, svc) \<Rightarrow>
        (let in_schema = get_default (input_schema svc) \<lparr>properties = Some []\<rparr>;
             params = \<lparr>params_type = ''object'',
                       params_properties = get_default (properties in_schema) [],
                       params_required = map fst (get_default (properties in_schema) [])\<rparr>;
             n = get_default (sats (get_default (pricing svc) \<lparr>sats = None\<rparr>)) 0;
             cat = get_default (capability_category svc) ''''
         in \<lparr>tool_type = ''function'',
              tool_function =
                \<lparr>fn_name = func_name,
                 fn_description =
                   get_default (description svc) '''' @ '' ['' @ cat @ '', '' @ str_int n
                     @ '' sats]'',
                 fn_parameters = params\<rparr>\<rparr>))"

definition tool_definitions :: "D3POpenAI \<Rightarrow> tool_def list" where
  "tool_definitions self = map tool_definition (services self)"

text \<open>
  \<^verbatim>\<open>D3POpenAI.execute(function_name, arguments)\<close>, \<^verbatim>\<open>arguments\<close> a \<^verbatim>\<open>str\<close> as annotated
  (so \<^verbatim>\<open>isinstance(arguments, str)\<close> holds). An entry of the table always has its
  \<^verbatim>\<open>_endpoint\<close> key, so \<^verbatim>\<open>not svc\<close> is true only when the lookup gave \<^verbatim>\<open>None\<close>. An
  exception of \<^verbatim>\<open>requests.post\<close>, or one of \<^verbatim>\<open>json.loads\<close> other than
  \<^verbatim>\<open>JSONDecodeError\<close>, is not caught and leaves \<open>execute\<close>.
\<close>

definition execute ::
  "env \<Rightarrow> D3POpenAI \<Rightarrow> string \<Rightarrow> string \<Rightarrow> (py_exception + string) \<times> net_call list" where
  "execute E self function_name arguments =
     (case map_of (services self) function_name of
        None \<Rightarrow>
          (Inr (json_dumps E
                  (JObj [(''error'', JStr (''Unknown function: '' @ function_name))]) None),
           [])
      | Some svc \<Rightarrow>
          (case json_loads E arguments of
             Inl ex \<Rightarrow>
               (if ex = JSONDecodeError
                then Inr (json_dumps E (JObj [(''error'', JStr ''Invalid JSON arguments'')]) None)
                else Inl ex,
                [])
           | Inr data \<Rightarrow>
               (let hs = [(''Content-Type'', ''application/json'')];
                    hs = (if mock_payments self
                          then AList.update ''X-D3P-Cert-Test'' ''true'' hs else hs);
                    req = \<lparr>url = x_endpoint svc, json = data, headers = hs, timeout = 15\<rparr>
                in (case requests_post E req of
                      Inl ex \<Rightarrow> (Inl ex, [Post req])
                    | Inr resp \<Rightarrow>
                        (if status_code resp = 402 \<and> \<not> mock_payments self
                         then (let n = get_default
                                         (sats (get_default (pricing svc) \<lparr>sats = None\<rparr>)) 0
                               in Inr (json_dumps E
                                         (JObj [(''error'', JStr ''L402 payment required''),
                                                (''status'', JInt 402),
                                                (''message'',
                                                 JStr (''Service requires '' @ str_int n
                                                        @ '' sats via Lightning''))])
                                         None))
                         else (case resp_json resp of
                                 Some j \<Rightarrow> Inr (json_dumps E j None)
                               | None \<Rightarrow> Inr (take 500 (resp_text resp))),
                         [Post req])))))"

text \<open>\<^verbatim>\<open>D3POpenAI.list_services\<close>; \<^verbatim>\<open>svc["service_id"]\<close> raises when the key is absent.\<close>

record openai_summary =
  sum_function :: string
  sum_service_id :: string
  sum_name :: string
  sum_category :: string
  sum_sats :: int

fun list_services_openai ::
  "(string \<times> loaded_service) list \<Rightarrow> py_exception + openai_summary list" where
  "list_services_openai [] = Inr []"
| "list_services_openai ((fname, svc) # rest) =
     (case service_id svc of
        None \<Rightarrow> Inl (KeyError ''service_id'')
      | Some sid \<Rightarrow>
          (case list_services_openai rest of
             Inl ex \<Rightarrow> Inl ex
           | Inr out \<Rightarrow>
               Inr (\<lparr>sum_function = fname,
                     sum_service_id = sid,
                     sum_name = get_default (name svc) '''',
                     sum_category = get_default (capability_category svc) '''',
                     sum_sats = get_default (sats (get_default (pricing svc) \<lparr>sats = None\<rparr>)) 0\<rparr>
                    # out)))"

definition list_services :: "D3POpenAI \<Rightarrow> py_exception + openai_summary list" where
  "list_services self = list_services_openai (services self)"

section \<open>The LangChain tool: \<^verbatim>\<open>d3p_langchain_tool.py\<close>\<close>

text \<open>The fields of the class \<^verbatim>\<open>D3PTool\<close> that its constructor sets.\<close>

record D3PTool =
  tool_name :: string
  tool_description :: string
  tool_service_id :: string
  tool_endpoint :: string
  pricing_sats :: int
  tool_mock_payments :: bool
  tool_base_url :: string
  service_schema :: schema

text \<open>\<^verbatim>\<open>manifest_entry or {}\<close>: the entry with no key.\<close>

definition empty_entry :: service where
  "empty_entry =
     \<lparr>service_id = None, endpoint = None, name = None, description = None,
      capability_category = None, pricing = None, input_schema = None\<rparr>"

text \<open>
  \<^verbatim>\<open>D3PTool.__init__(service_id, manifest_entry, mock_payments, base_url)\<close>. The local
  \<^verbatim>\<open>svc_name = svc.get("name", service_id)\<close> is computed and never used.
\<close>

definition D3PTool_init :: "string \<Rightarrow> service option \<Rightarrow> bool \<Rightarrow> string \<Rightarrow> D3PTool" where
  "D3PTool_init sid manifest_entry mock base =
     (let svc = get_default manifest_entry empty_entry;
          ep = get_default (endpoint svc) (''/api/services/'' @ sid);
          full_url = (if startswith ep ''http'' then ep else base @ ep);
          svc_name = get_default (name svc) sid;
          svc_desc = get_default (description svc) (''Call the '' @ sid @ '' d3p service'');
          category = get_default (capability_category svc) '''';
          n = get_default (sats (get_default (pricing svc) \<lparr>sats = None\<rparr>)) 0;
          in_schema = get_default (input_schema svc) \<lparr>properties = None\<rparr>;
          props = get_default (properties in_schema) [];
          fields = join '', ''
                     (map (\<lambda>kv. fst kv @ '' ('' @ get_default (prop_type (snd kv)) '''' @ '')'')
                        props)
      in \<lparr>tool_name = ''d3p_'' @ sid,
          tool_description =
            svc_desc @ '' ['' @ category @ '', '' @ str_int n @ '' sats]. ''
              @ ''Input fields: '' @ str_or fields ''see docs'' @ ''. ''
              @ ''Pass a JSON string as payload.'',
          tool_service_id = sid,
          tool_endpoint = full_url,
          pricing_sats = n,
          tool_mock_payments = mock,
          tool_base_url = base,
          service_schema = in_schema\<rparr>)"

text \<open>\<^verbatim>\<open>D3PTool._run(payload)\<close>.\<close>

definition D3PTool_run ::
  "env \<Rightarrow> D3PTool \<Rightarrow> string \<Rightarrow> (py_exception + string) \<times> net_call list" where
  "D3PTool_run E self payload =
     (case json_loads E payload of
        Inl ex \<Rightarrow>
          (if ex = JSONDecodeError
           then Inr (json_dumps E (JObj [(''error'', JStr ''Invalid JSON payload'')]) None)
           else Inl ex,
           [])
      | Inr data \<Rightarrow>
          (let hs = [(''Content-Type'', ''application/json'')];
               hs = (if tool_mock_payments self
                     then AList.update ''X-D3P-Cert-Test'' ''true'' hs else hs);
               req = \<lparr>url = tool_endpoint self, json = data, headers = hs, timeout = 15\<rparr>
           in (case requests_post E req of
                 Inl ex \<Rightarrow> (Inl ex, [Post req])
               | Inr resp \<Rightarrow>
                   (if status_code resp = 402 \<and> \<not> tool_mock_payments self
                    then Inr (json_dumps E
                                (JObj [(''error'', JStr ''L402 payment required''),
                                       (''status'', JInt 402),
                                       (''message'',
                                        JStr (''Service requires '' @ str_int (pricing_sats self)
                                               @ '' sats via Lightning''))])
                                None)
                    else (case resp_json resp of
                            Some j \<Rightarrow> Inr (json_dumps E j None)
                          | None \<Rightarrow> Inr (take 500 (resp_text resp))),
                    [Post req]))))"

text \<open>
  The comprehension of \<^verbatim>\<open>D3PTool.from_manifest\<close>: one tool per entry, in order;
  \<^verbatim>\<open>svc["service_id"]\<close> raises at the first entry without the key.
\<close>

fun tools_of_entries :: "bool \<Rightarrow> string \<Rightarrow> service list \<Rightarrow> py_exception + D3PTool list" where
  "tools_of_entries mock base [] = Inr []"
| "tools_of_entries mock base (svc # rest) =
     (case service_id svc of
        None \<Rightarrow> Inl (KeyError ''service_id'')
      | Some sid \<Rightarrow>
          (case tools_of_entries mock base rest of
             Inl ex \<Rightarrow> Inl ex
           | Inr ts \<Rightarrow> Inr (D3PTool_init sid (Some svc) mock base # ts)))"

definition from_manifest ::
  "env \<Rightarrow> string \<Rightarrow> bool \<Rightarrow> string \<Rightarrow> (py_exception + D3PTool list) \<times> net_call list" where
  "from_manifest E manifest_url mock base =
     (case fetch_manifest E manifest_url of
        (Inl ex, calls) \<Rightarrow> (Inl ex, calls)
      | (Inr svcs, calls) \<Rightarrow> (tools_of_entries mock base svcs, calls))"

section \<open>The CrewAI tool: \<^verbatim>\<open>d3p_crewai_tool.py\<close>\<close>

text \<open>
  The class \<^verbatim>\<open>D3PServiceTool\<close> declares the fields of \<^verbatim>\<open>D3PTool\<close>, so it shares the
  record; its constructor, \<^verbatim>\<open>_run\<close> and \<^verbatim>\<open>discover_d3p_tools\<close> are written out from
  the CrewAI file.
\<close>

type_synonym D3PServiceTool = D3PTool

definition D3PServiceTool_init ::
  "string \<Rightarrow> service option \<Rightarrow> bool \<Rightarrow> string \<Rightarrow> D3PServiceTool" where
  "D3PServiceTool_init sid manifest_entry mock base =
     (let svc = get_default manifest_entry empty_entry;
          ep = get_default (endpoint svc) (''/api/services/'' @ sid);
          full_url = (if startswith ep ''http'' then ep else base @ ep);
          svc_name = get_default (name svc) sid;
          svc_desc = get_default (description svc) (''Call the '' @ sid @ '' d3p service'');
          category = get_default (capability_category svc) '''';
          n = get_default (sats (get_default (pricing svc) \<lparr>sats = None\<rparr>)) 0;
          in_schema = get_default (input_schema svc) \<lparr>properties = None\<rparr>;
          props = get_default (properties in_schema) [];
          fields = join '', ''
                     (map (\<lambda>kv. fst kv @ '' ('' @ get_default (prop_type (snd kv)) '''' @ '')'')
                        props)
      in \<lparr>tool_name = ''d3p_'' @ sid,
          tool_description =
            svc_desc @ '' ['' @ category @ '', '' @ str_int n @ '' sats]. ''
              @ ''Input fields: '' @ str_or fields ''see docs'' @ ''. ''
              @ ''Pass a JSON string as payload.'',
          tool_service_id = sid,
          tool_endpoint = full_url,
          pricing_sats = n,
          tool_mock_payments = mock,
          tool_base_url = base,
          service_schema = in_schema\<rparr>)"

definition D3PServiceTool_run ::
  "env \<Rightarrow> D3PServiceTool \<Rightarrow> string \<Rightarrow> (py_exception + string) \<times> net_call list" where
  "D3PServiceTool_run E self payload =
     (case json_loads E payload of
        Inl ex \<Rightarrow>
          (if ex = JSONDecodeError
           then Inr (json_dumps E (JObj [(''error'', JStr ''Invalid JSON payload'')]) None)
           else Inl ex,
           [])
      | Inr data \<Rightarrow>
          (let hs = [(''Content-Type'', ''application/json'')];
               hs = (if tool_mock_payments self
                     then AList.update ''X-D3P-Cert-Test'' ''true'' hs else hs);
               req = \<lparr>url = tool_endpoint self, json = data, headers = hs, timeout = 15\<rparr>
           in (case requests_post E req of
                 Inl ex \<Rightarrow> (Inl ex, [Post req])
               | Inr resp \<Rightarrow>
                   (if status_code resp = 402 \<and> \<not> tool_mock_payments self
                    then Inr (json_dumps E
                                (JObj [(''error'', JStr ''L402 payment required''),
                                       (''status'', JInt 402),
                                       (''message'',
                                        JStr (''Service requires '' @ str_int (pricing_sats self)
                                               @ '' sats via Lightning''))])
                                None)
                    else (case resp_json resp of
                            Some j \<Rightarrow> Inr (json_dumps E j None)
                          | None \<Rightarrow> Inr (take 500 (resp_text resp))),
                    [Post req]))))"

fun crew_tools_of_entries ::
  "bool \<Rightarrow> string \<Rightarrow> service list \<Rightarrow> py_exception + D3PServiceTool list" where
  "crew_tools_of_entries mock base [] = Inr []"
| "crew_tools_of_entries mock base (svc # rest) =
     (case service_id svc of
        None \<Rightarrow> Inl (KeyError ''service_id'')
      | Some sid \<Rightarrow>
          (case crew_tools_of_entries mock base rest of
             Inl ex \<Rightarrow> Inl ex
           | Inr ts \<Rightarrow> Inr (D3PServiceTool_init sid (Some svc) mock base # ts)))"

definition discover_d3p_tools ::
  "env \<Rightarrow> string \<Rightarrow> bool \<Rightarrow> string \<Rightarrow> (py_exception + D3PServiceTool list) \<times> net_call list" where
  "discover_d3p_tools E manifest_url mock base =
     (case fetch_manifest E manifest_url of
        (Inl ex, calls) \<Rightarrow> (Inl ex, calls)
      | (Inr svcs, calls) \<Rightarrow> (crew_tools_of_entries mock base svcs, calls))"

section \<open>The MCP server: \<^verbatim>\<open>d3p_mcp_tool.py\<close>\<close>

text \<open>
  The module reads \<^verbatim>\<open>BASE_URL\<close> and \<^verbatim>\<open>MOCK_PAYMENTS\<close> from the process environment
  once; they are the parameters \<open>base\<close> and \<open>mock\<close> below.
  \<^verbatim>\<open>_call_service(endpoint, data, sats)\<close> returns a \<^verbatim>\<open>dict\<close> (or whatever JSON value
  the response holds).
\<close>

definition call_service ::
  "env \<Rightarrow> bool \<Rightarrow> string \<Rightarrow> jvalue \<Rightarrow> int \<Rightarrow> (py_exception + jvalue) \<times> net_call list" where
  "call_service E mock ep data n =
     (let hs = [(''Content-Type'', ''application/json'')];
          hs = (if mock then AList.update ''X-D3P-Cert-Test'' ''true'' hs else hs);
          req = \<lparr>url = ep, json = data, headers = hs, timeout = 15\<rparr>
      in (case requests_post E req of
            Inl ex \<Rightarrow> (Inl ex, [Post req])
          | Inr resp \<Rightarrow>
              (if status_code resp = 402 \<and> \<not> mock
               then Inr (JObj [(''error'', JStr ''L402 payment required''),
                               (''status'', JInt 402),
                               (''message'',
                                JStr (''Service requires '' @ str_int n
                                       @ '' sats via Lightning''))])
               else (case resp_json resp of
                       Some j \<Rightarrow> Inr j
                     | None \<Rightarrow>
                         Inr (JObj [(''raw'', JStr (take 500 (resp_text resp))),
                                    (''status'', JInt (status_code resp))])),
               [Post req])))"

text \<open>The closure \<^verbatim>\<open>tool_fn(params)\<close> that \<^verbatim>\<open>_make_tool\<close> returns, with what it captured.\<close>

definition tool_fn ::
  "env \<Rightarrow> bool \<Rightarrow> string \<Rightarrow> int \<Rightarrow> string \<Rightarrow> (py_exception + string) \<times> net_call list" where
  "tool_fn E mock ep n params =
     (case json_loads E params of
        Inl ex \<Rightarrow>
          (if ex = JSONDecodeError
           then Inr (json_dumps E (JObj [(''error'', JStr ''Invalid JSON'')]) None)
           else Inl ex,
           [])
      | Inr data \<Rightarrow>
          (case call_service E mock ep data n of
             (Inl ex, calls) \<Rightarrow> (Inl ex, calls)
           | (Inr r, calls) \<Rightarrow> (Inr (json_dumps E r None), calls)))"

text \<open>
  One registration \<^verbatim>\<open>mcp.tool(name=..., description=...)(_make_tool(...))\<close>: the name
  and description given to the server, the \<^verbatim>\<open>__name__\<close> and \<^verbatim>\<open>__doc__\<close> set on the
  closure, and the endpoint and price the closure captured.
\<close>

record mcp_tool =
  reg_name :: string
  reg_description :: string
  fn_dunder_name :: string
  fn_doc :: string
  fn_endpoint :: string
  fn_sats :: int

definition make_tool :: "string \<Rightarrow> string \<Rightarrow> int \<Rightarrow> string \<Rightarrow> string \<Rightarrow> mcp_tool" where
  "make_tool sid ep n desc param_doc =
     \<lparr>reg_name = ''d3p_'' @ sid,
      reg_description = desc,
      fn_dunder_name = ''d3p_'' @ sid,
      fn_doc = desc @ ''. Input (JSON string): '' @ str_or param_doc ''see docs'',
      fn_endpoint = ep,
      fn_sats = n\<rparr>"

text \<open>
  The module-level loop: \<^verbatim>\<open>_services\<close> (keyed by the service id) and the registrations
  made so far, in order.
\<close>

fun register_services ::
  "string \<Rightarrow> service list \<Rightarrow> (string \<times> loaded_service) list \<times> mcp_tool list
     \<Rightarrow> py_exception + (string \<times> loaded_service) list \<times> mcp_tool list" where
  "register_services base [] st = Inr st"
| "register_services base (svc # rest) st =
     (case service_id svc of
        None \<Rightarrow> Inl (KeyError ''service_id'')
      | Some sid \<Rightarrow>
          (let ep = get_default (endpoint svc) (''/api/services/'' @ sid);
               ep = (if \<not> startswith ep ''http'' then base @ ep else ep);
               n = get_default (sats (get_default (pricing svc) \<lparr>sats = None\<rparr>)) 0;
               cat = get_default (capability_category svc) '''';
               desc = get_default (description svc) '''' @ '' ['' @ cat @ '', '' @ str_int n
                        @ '' sats]'';
               props = get_default
                         (properties (get_default (input_schema svc) \<lparr>properties = None\<rparr>)) [];
               param_doc = join ''; ''
                             (map (\<lambda>kv. fst kv @ '': ''
                                     @ get_default (prop_description (snd kv))
                                         (get_default (prop_type (snd kv)) ''''))
                                props)
           in register_services base rest
                (AList.update sid (service.extend svc (loaded_service.fields ep)) (fst st),
                 snd st @ [make_tool sid ep n desc param_doc])))"

text \<open>
  \<^verbatim>\<open>list_services()\<close> of the MCP module: the summary it builds from
  \<^verbatim>\<open>_services.values()\<close>, then \<^verbatim>\<open>json.dumps(summary, indent=2)\<close>.
\<close>

fun mcp_summary :: "(string \<times> loaded_service) list \<Rightarrow> py_exception + jvalue list" where
  "mcp_summary [] = Inr []"
| "mcp_summary ((k, s) # rest) =
     (case service_id s of
        None \<Rightarrow> Inl (KeyError ''service_id'')
      | Some sid \<Rightarrow>
          (case mcp_summary rest of
             Inl ex \<Rightarrow> Inl ex
           | Inr out \<Rightarrow>
               Inr (JObj [(''service_id'', JStr sid),
                          (''name'', JStr (get_default (name s) '''')),
                          (''category'', JStr (get_default (capability_category s) '''')),
                          (''sats'',
                           JInt (get_default (sats (get_default (pricing s) \<lparr>sats = None\<rparr>)) 0)),
                          (''description'', JStr (get_default (description s) ''''))]
                    # out)))"

definition mcp_list_services ::
  "env \<Rightarrow> (string \<times> loaded_service) list \<Rightarrow> py_exception + string" where
  "mcp_list_services E tbl =
     (case mcp_summary tbl of
        Inl ex \<Rightarrow> Inl ex
      | Inr summary \<Rightarrow> Inr (json_dumps E (JArr summary) (Some 2)))"

definition mcp_module ::
  "env \<Rightarrow> string \<Rightarrow> string
     \<Rightarrow> (py_exception + (string \<times> loaded_service) list \<times> mcp_tool list) \<times> net_call list" where
  "mcp_module E manifest_url base =
     (case fetch_manifest E manifest_url of
        (Inl ex, calls) \<Rightarrow> (Inl ex, calls)
      | (Inr svcs, calls) \<Rightarrow> (register_services base svcs ([], []), calls))"

section \<open>A concrete environment for the worked examples\<close>

text \<open>
  The theorems below hold for every environment. The worked examples run the adapters
  in one concrete environment: a serialiser that writes what \<^verbatim>\<open>json.dumps\<close> writes for
  integers, booleans, \<^verbatim>\<open>null\<close>, arrays, objects and strings of printable ASCII
  (separators \<^verbatim>\<open>", "\<close> and \<^verbatim>\<open>": "\<close>, or one item per line under \<^verbatim>\<open>indent\<close>), a parser
  that accepts the one argument document of the examples, fails with \<^verbatim>\<open>RecursionError\<close>
  on a document of 2000 opening brackets and rejects every other string with
  \<^verbatim>\<open>JSONDecodeError\<close>, a manifest of three services, and a remote service that answers
  by endpoint.
\<close>

definition quote :: "string \<Rightarrow> string" where
  "quote s =
     CHR 0x22 # concat (map (\<lambda>c. if c = CHR 0x22 \<or> c = CHR 0x5C then [CHR 0x5C, c] else [c]) s)
       @ [CHR 0x22]"

definition newline :: "nat \<Rightarrow> nat \<Rightarrow> string" where
  "newline n level = CHR 0x0A # replicate (n * level) CHR '' ''"

fun dumps_at :: "nat option \<Rightarrow> nat \<Rightarrow> jvalue \<Rightarrow> string" where
  "dumps_at ind level JNull = ''null''"
| "dumps_at ind level (JBool b) = (if b then ''true'' else ''false'')"
| "dumps_at ind level (JInt i) = str_int i"
| "dumps_at ind level (JStr s) = quote s"
| "dumps_at ind level (JArr xs) =
     (if xs = [] then ''[]''
      else (case ind of
              None \<Rightarrow> ''['' @ join '', '' (map (dumps_at ind level) xs) @ '']''
            | Some n \<Rightarrow>
                ''['' @ newline n (Suc level)
                  @ join ('','' @ newline n (Suc level)) (map (dumps_at ind (Suc level)) xs)
                  @ newline n level @ '']''))"
| "dumps_at ind level (JObj kvs) =
     (if kvs = [] then ''{}''
      else (case ind of
              None \<Rightarrow>
                ''{'' @ join '', ''
                          (map (\<lambda>kv. quote (fst kv) @ '': '' @ dumps_at ind level (snd kv)) kvs)
                  @ ''}''
            | Some n \<Rightarrow>
                ''{'' @ newline n (Suc level)
                  @ join ('','' @ newline n (Suc level))
                      (map (\<lambda>kv. quote (fst kv) @ '': '' @ dumps_at ind (Suc level) (snd kv)) kvs)
                  @ newline n level @ ''}''))"

text \<open>The argument document \<^verbatim>\<open>{"currency": "usd"}\<close> and the reply \<^verbatim>\<open>{"price": 50000}\<close>.\<close>

definition ex_args_value :: jvalue where
  "ex_args_value = JObj [(''currency'', JStr ''usd'')]"

definition ex_args :: string where
  "ex_args = dumps_at None 0 ex_args_value"

text \<open>A document of 2000 opening brackets, deeper than the recursion limit.\<close>

definition ex_deep :: string where
  "ex_deep = replicate 2000 CHR ''[''"

definition ex_price :: jvalue where
  "ex_price = JObj [(''price'', JInt 50000)]"

text \<open>
  The manifest: the \<^verbatim>\<open>btc-price\<close> entry of the specification's example, an entry
  \<^verbatim>\<open>echo\<close> with nothing but its id, and an entry \<^verbatim>\<open>weather\<close> with every key and an
  absolute endpoint.
\<close>

definition ex_btc :: service where
  "ex_btc =
     \<lparr>service_id = Some ''btc-price'', endpoint = Some ''/api/services/btc-price'',
      name = None, description = None, capability_category = None,
      pricing = Some \<lparr>sats = Some 5\<rparr>,
      input_schema =
        Some \<lparr>properties =
                Some [(''currency'', \<lparr>prop_type = Some ''string'', prop_description = None\<rparr>)]\<rparr>\<rparr>"

definition ex_echo :: service where
  "ex_echo =
     \<lparr>service_id = Some ''echo'', endpoint = None, name = None, description = None,
      capability_category = None, pricing = None, input_schema = None\<rparr>"

definition ex_weather :: service where
  "ex_weather =
     \<lparr>service_id = Some ''weather'', endpoint = Some ''https://other.test/weather'',
      name = Some ''Weather'', description = Some ''Weather report'',
      capability_category = Some ''data'', pricing = Some \<lparr>sats = Some 2\<rparr>,
      input_schema = Some \<lparr>properties = Some []\<rparr>\<rparr>"

definition ex_manifest :: "service list" where
  "ex_manifest = [ex_btc, ex_echo, ex_weather]"

text \<open>
  The remote side: \<^verbatim>\<open>echo\<close> answers 500 with 600 characters that are not JSON;
  \<^verbatim>\<open>weather\<close> answers 402 with a JSON body whatever the headers; every other endpoint
  answers 200 with the price when the request carries the bypass header, and 402 with a
  plain text otherwise.
\<close>

definition ex_post :: "http_request \<Rightarrow> py_exception + http_response" where
  "ex_post req =
     (if url req = ''https://example.test/api/services/echo''
      then Inr \<lparr>status_code = 500, resp_text = replicate 600 CHR ''x'', resp_json = None\<rparr>
      else if url req = ''https://other.test/weather''
      then Inr \<lparr>status_code = 402,
                resp_text = dumps_at None 0 (JObj [(''detail'', JStr ''invoice'')]),
                resp_json = Some (JObj [(''detail'', JStr ''invoice'')])\<rparr>
      else if map_of (headers req) ''X-D3P-Cert-Test'' = Some ''true''
      then Inr \<lparr>status_code = 200, resp_text = dumps_at None 0 ex_price,
                resp_json = Some ex_price\<rparr>
      else Inr \<lparr>status_code = 402, resp_text = ''Payment Required'', resp_json = None\<rparr>)"

definition ex_env :: env where
  "ex_env =
     \<lparr>json_loads =
        (\<lambda>s. if s = ex_args then Inr ex_args_value
             else if s = ex_deep then Inl RecursionError
             else Inl JSONDecodeError),
      json_dumps = (\<lambda>j ind. dumps_at ind 0 j),
      requests_get =
        (\<lambda>u t. Inr \<lparr>http_error = False,
                     manifest_json = Some \<lparr>doc_services = Some ex_manifest\<rparr>\<rparr>),
      requests_post = ex_post\<rparr>"

text \<open>The table the OpenAI wrapper loads from this manifest, and the wrapper in both modes.\<close>

definition ex_table :: "(string \<times> loaded_service) list" where
  "ex_table =
     [(''d3p_btc-price'',
       service.extend ex_btc
         (loaded_service.fields ''https://example.test/api/services/btc-price'')),
      (''d3p_echo'',
       service.extend ex_echo (loaded_service.fields ''https://example.test/api/services/echo'')),
      (''d3p_weather'',
       service.extend ex_weather (loaded_service.fields ''https://other.test/weather''))]"

definition ex_client :: "bool \<Rightarrow> D3POpenAI" where
  "ex_client mock =
     \<lparr>base_url = ''https://example.test'', mock_payments = mock, services = ex_table\<rparr>"

section \<open>Dispatch\<close>

text \<open>
  Claim C3. A dispatch of the OpenAI wrapper for a function name that is not a key of the
  loaded table returns the JSON text of an error object naming the unknown function, and
  makes no network call: the list of outbound calls is empty.
\<close>

theorem execute_unknown_function:
  "map_of (services self) function_name = None \<Longrightarrow>
   execute E self function_name arguments =
     (Inr (json_dumps E (JObj [(''error'', JStr (''Unknown function: '' @ function_name))]) None),
      [])"
  by (simp add: execute_def)

theorem execute_unknown_function_witness:
  "map_of (services (ex_client True)) ''d3p_nope'' = None \<and>
   execute ex_env (ex_client True) ''d3p_nope'' ex_args =
     (Inr (dumps_at None 0 (JObj [(''error'', JStr ''Unknown function: d3p_nope'')])), [])"
proof -
  have h: "map_of (services (ex_client True)) ''d3p_nope'' = None"
    by (simp add: ex_client_def ex_table_def)
  show ?thesis
    using h execute_unknown_function [OF h, of ex_env ex_args]
    by (simp add: ex_env_def)
qed

text \<open>Facts of the example environment that the worked examples share.\<close>

lemma ex_loads_args: "json_loads ex_env ex_args = Inr ex_args_value"
  by (simp add: ex_env_def)

lemma ex_dumps: "json_dumps ex_env j ind = dumps_at ind 0 j"
  by (simp add: ex_env_def)

lemma ex_lookup_btc:
  "map_of (services (ex_client mock)) ''d3p_btc-price'' =
     Some (service.extend ex_btc
             (loaded_service.fields ''https://example.test/api/services/btc-price''))"
  by (simp add: ex_client_def ex_table_def)

lemma ex_lookup_echo:
  "map_of (services (ex_client mock)) ''d3p_echo'' =
     Some (service.extend ex_echo
             (loaded_service.fields ''https://example.test/api/services/echo''))"
  by (simp add: ex_client_def ex_table_def)

lemma ex_lookup_weather:
  "map_of (services (ex_client mock)) ''d3p_weather'' =
     Some (service.extend ex_weather (loaded_service.fields ''https://other.test/weather''))"
  by (simp add: ex_client_def ex_table_def)

lemma str_int_5: "str_int 5 = ''5''"
  by (simp add: str_int_def str_nat.simps digit_char_def)

lemma ex_not_json_ne_deep: "''not json'' \<noteq> ex_deep"
proof
  assume "''not json'' = ex_deep"
  then have "length ''not json'' = length ex_deep"
    by simp
  then show False
    by (simp add: ex_deep_def)
qed

lemma ex_deep_ne_args: "ex_deep \<noteq> ex_args"
proof
  assume "ex_deep = ex_args"
  then have "length ex_deep = length ex_args"
    by simp
  then show False
    by (simp add: ex_deep_def ex_args_def ex_args_value_def quote_def)
qed

lemma ex_loads_not_json: "json_loads ex_env ''not json'' = Inl JSONDecodeError"
  using ex_not_json_ne_deep
  by (simp add: ex_env_def ex_args_def ex_args_value_def quote_def)

lemma ex_loads_deep: "json_loads ex_env ex_deep = Inl RecursionError"
  using ex_deep_ne_args by (simp add: ex_env_def)

text \<open>
  Claim C1, as amended. When \<^verbatim>\<open>json.loads\<close> fails on the argument string, no dispatcher
  makes an outbound call. When it fails with \<^verbatim>\<open>JSONDecodeError\<close>, every dispatcher
  returns normally (the result is \<open>Inr\<close>) the JSON text of an error object, which differs
  by adapter: \<^verbatim>\<open>{"error": "Invalid JSON payload"}\<close> in the LangChain and CrewAI tools,
  \<^verbatim>\<open>{"error": "Invalid JSON"}\<close> in the MCP tool, and in the OpenAI wrapper
  \<^verbatim>\<open>{"error": "Invalid JSON arguments"}\<close> for a known function name (the table lookup
  comes first, so an unknown name gives the unknown-function error).
\<close>

theorem invalid_json_no_call:
  "json_loads E raw = Inl ex \<Longrightarrow>
   snd (D3PTool_run E t raw) = [] \<and>
   snd (D3PServiceTool_run E t raw) = [] \<and>
   snd (tool_fn E mock ep n raw) = [] \<and>
   snd (execute E self function_name raw) = [] \<and>
   (ex = JSONDecodeError \<longrightarrow>
      D3PTool_run E t raw =
        (Inr (json_dumps E (JObj [(''error'', JStr ''Invalid JSON payload'')]) None), []) \<and>
      D3PServiceTool_run E t raw =
        (Inr (json_dumps E (JObj [(''error'', JStr ''Invalid JSON payload'')]) None), []) \<and>
      tool_fn E mock ep n raw =
        (Inr (json_dumps E (JObj [(''error'', JStr ''Invalid JSON'')]) None), []) \<and>
      execute E self function_name raw =
        (Inr (json_dumps E
                (JObj [(''error'',
                        JStr (case map_of (services self) function_name of
                                None \<Rightarrow> ''Unknown function: '' @ function_name
                              | Some svc \<Rightarrow> ''Invalid JSON arguments''))])
                None),
         []))"
  by (simp add: D3PTool_run_def D3PServiceTool_run_def tool_fn_def execute_def
      split: option.splits)

theorem invalid_json_no_call_witness:
  "json_loads ex_env ''not json'' = Inl JSONDecodeError \<and>
   D3PTool_run ex_env (D3PTool_init ''btc-price'' (Some ex_btc) True ''https://example.test'')
       ''not json'' =
     (Inr (dumps_at None 0 (JObj [(''error'', JStr ''Invalid JSON payload'')])), []) \<and>
   tool_fn ex_env True ''https://example.test/api/services/btc-price'' 5 ''not json'' =
     (Inr (dumps_at None 0 (JObj [(''error'', JStr ''Invalid JSON'')])), []) \<and>
   execute ex_env (ex_client True) ''d3p_btc-price'' ''not json'' =
     (Inr (dumps_at None 0 (JObj [(''error'', JStr ''Invalid JSON arguments'')])), []) \<and>
   json_loads ex_env ex_deep = Inl RecursionError \<and>
   snd (execute ex_env (ex_client True) ''d3p_btc-price'' ex_deep) = [] \<and>
   snd (D3PTool_run ex_env
          (D3PTool_init ''btc-price'' (Some ex_btc) True ''https://example.test'') ex_deep) = []"
proof -
  have d: "json_dumps ex_env = (\<lambda>j ind. dumps_at ind 0 j)"
    by (simp add: ex_env_def)
  have k: "map_of (services (ex_client True)) ''d3p_btc-price'' \<noteq> None"
    by (simp add: ex_client_def ex_table_def)
  note a = invalid_json_no_call [OF ex_loads_not_json,
        of "D3PTool_init ''btc-price'' (Some ex_btc) True ''https://example.test''"
           True "''https://example.test/api/services/btc-price''" 5
           "ex_client True" "''d3p_btc-price''"]
  note b = invalid_json_no_call [OF ex_loads_deep,
        of "D3PTool_init ''btc-price'' (Some ex_btc) True ''https://example.test''"
           True "''https://example.test/api/services/btc-price''" 5
           "ex_client True" "''d3p_btc-price''"]
  show ?thesis
    using ex_loads_not_json ex_loads_deep k a b
    unfolding d by (auto split: option.splits)
qed

text \<open>
  The OpenAI wrapper on the known function \<^verbatim>\<open>d3p_btc-price\<close> and the argument
  \<^verbatim>\<open>not json\<close>, which the parser rejects with \<^verbatim>\<open>JSONDecodeError\<close>: the error text is
  \<^verbatim>\<open>Invalid JSON arguments\<close>, so the returned string is not the serialisation of
  \<^verbatim>\<open>{"error": "Invalid JSON payload"}\<close>. The MCP tool returns \<^verbatim>\<open>{"error": "Invalid JSON"}\<close>.
\<close>

theorem invalid_json_payload_counterexample:
  "json_loads ex_env ''not json'' = Inl JSONDecodeError \<and>
   execute ex_env (ex_client True) ''d3p_btc-price'' ''not json'' =
     (Inr (dumps_at None 0 (JObj [(''error'', JStr ''Invalid JSON arguments'')])), []) \<and>
   fst (execute ex_env (ex_client True) ''d3p_btc-price'' ''not json'') \<noteq>
     Inr (json_dumps ex_env (JObj [(''error'', JStr ''Invalid JSON payload'')]) None) \<and>
   fst (tool_fn ex_env True ''https://example.test/api/services/btc-price'' 5 ''not json'') \<noteq>
     Inr (json_dumps ex_env (JObj [(''error'', JStr ''Invalid JSON payload'')]) None)"
  using ex_loads_not_json
  by (simp add: execute_def tool_fn_def ex_dumps ex_client_def ex_table_def quote_def)

text \<open>
  What the model does with a parse failure that is not a \<^verbatim>\<open>JSONDecodeError\<close>: the
  exception leaves the dispatcher, and no call has been made.
\<close>

lemma parse_failure_not_caught:
  "json_loads E raw = Inl ex \<Longrightarrow> ex \<noteq> JSONDecodeError \<Longrightarrow>
   D3PTool_run E t raw = (Inl ex, []) \<and>
   D3PServiceTool_run E t raw = (Inl ex, []) \<and>
   tool_fn E mock ep n raw = (Inl ex, []) \<and>
   (map_of (services self) function_name \<noteq> None \<longrightarrow>
      execute E self function_name raw = (Inl ex, []))"
  by (auto simp: D3PTool_run_def D3PServiceTool_run_def tool_fn_def execute_def
      split: option.splits)

text \<open>
  Claim C2. A dispatch whose arguments parse makes exactly one outbound call (there is no
  retry), to the resolved endpoint with the parsed body and a 15 second timeout; its
  headers hold \<^verbatim>\<open>X-D3P-Cert-Test: true\<close> after \<^verbatim>\<open>Content-Type\<close> in mock mode and only
  \<^verbatim>\<open>Content-Type\<close> in live mode. In live mode a response of status 402 gives the JSON text
  of the payment-required object (\<^verbatim>\<open>error\<close>, \<^verbatim>\<open>status\<close> 402, \<^verbatim>\<open>message\<close>) whose message
  carries the price of the service in sats. Stated for \<^verbatim>\<open>D3POpenAI.execute\<close> and for
  \<^verbatim>\<open>D3PTool._run\<close>.
\<close>

theorem payment_gating:
  "json_loads E raw = Inr data \<Longrightarrow>
   map_of (services self) function_name = Some svc \<Longrightarrow>
   req = \<lparr>url = x_endpoint svc, json = data,
          headers = (if mock_payments self
                     then [(''Content-Type'', ''application/json''), (''X-D3P-Cert-Test'', ''true'')]
                     else [(''Content-Type'', ''application/json'')]),
          timeout = 15\<rparr> \<Longrightarrow>
   treq = \<lparr>url = tool_endpoint t, json = data,
           headers = (if tool_mock_payments t
                      then [(''Content-Type'', ''application/json''), (''X-D3P-Cert-Test'', ''true'')]
                      else [(''Content-Type'', ''application/json'')]),
           timeout = 15\<rparr> \<Longrightarrow>
   snd (execute E self function_name raw) = [Post req] \<and>
   snd (D3PTool_run E t raw) = [Post treq] \<and>
   (\<not> mock_payments self \<and> (\<exists>resp. requests_post E req = Inr resp \<and> status_code resp = 402) \<longrightarrow>
      fst (execute E self function_name raw) =
        Inr (json_dumps E
               (JObj [(''error'', JStr ''L402 payment required''),
                      (''status'', JInt 402),
                      (''message'',
                       JStr (''Service requires ''
                              @ str_int (get_default
                                           (sats (get_default (pricing svc) \<lparr>sats = None\<rparr>)) 0)
                              @ '' sats via Lightning''))])
               None)) \<and>
   (\<not> tool_mock_payments t \<and> (\<exists>resp. requests_post E treq = Inr resp \<and> status_code resp = 402) \<longrightarrow>
      fst (D3PTool_run E t raw) =
        Inr (json_dumps E
               (JObj [(''error'', JStr ''L402 payment required''),
                      (''status'', JInt 402),
                      (''message'',
                       JStr (''Service requires '' @ str_int (pricing_sats t)
                              @ '' sats via Lightning''))])
               None))"
  by (auto simp: execute_def D3PTool_run_def Let_def split: sum.splits option.splits)

theorem payment_gating_witness:
  "snd (execute ex_env (ex_client True) ''d3p_btc-price'' ex_args) =
     [Post \<lparr>url = ''https://example.test/api/services/btc-price'', json = ex_args_value,
            headers = [(''Content-Type'', ''application/json''), (''X-D3P-Cert-Test'', ''true'')],
            timeout = 15\<rparr>] \<and>
   execute ex_env (ex_client False) ''d3p_btc-price'' ex_args =
     (Inr (dumps_at None 0
             (JObj [(''error'', JStr ''L402 payment required''),
                    (''status'', JInt 402),
                    (''message'', JStr ''Service requires 5 sats via Lightning'')])),
      [Post \<lparr>url = ''https://example.test/api/services/btc-price'', json = ex_args_value,
             headers = [(''Content-Type'', ''application/json'')], timeout = 15\<rparr>])"
proof -
  let ?svc = "service.extend ex_btc
                (loaded_service.fields ''https://example.test/api/services/btc-price'')"
  let ?t = "D3PTool_init ''btc-price'' (Some ex_btc) False ''https://example.test''"
  have live402:
    "requests_post ex_env
       \<lparr>url = ''https://example.test/api/services/btc-price'', json = ex_args_value,
        headers = [(''Content-Type'', ''application/json'')], timeout = 15\<rparr> =
     Inr \<lparr>status_code = 402, resp_text = ''Payment Required'', resp_json = None\<rparr>"
    by (simp add: ex_env_def ex_post_def)
  have sv: "x_endpoint ?svc = ''https://example.test/api/services/btc-price''"
    "get_default (sats (get_default (pricing ?svc) \<lparr>sats = None\<rparr>)) 0 = 5"
    by (simp_all add: service.defs loaded_service.defs ex_btc_def get_default_def)
  have m: "mock_payments (ex_client True)" "\<not> mock_payments (ex_client False)"
    by (simp_all add: ex_client_def)
  note a = payment_gating [OF ex_loads_args ex_lookup_btc [of True] refl refl,
      where t = ?t]
  note b = payment_gating [OF ex_loads_args ex_lookup_btc [of False] refl refl,
      where t = ?t]
  have a1: "snd (execute ex_env (ex_client True) ''d3p_btc-price'' ex_args) =
     [Post \<lparr>url = ''https://example.test/api/services/btc-price'', json = ex_args_value,
            headers = [(''Content-Type'', ''application/json''), (''X-D3P-Cert-Test'', ''true'')],
            timeout = 15\<rparr>]"
    using a m sv by simp
  have b1: "snd (execute ex_env (ex_client False) ''d3p_btc-price'' ex_args) =
     [Post \<lparr>url = ''https://example.test/api/services/btc-price'', json = ex_args_value,
            headers = [(''Content-Type'', ''application/json'')], timeout = 15\<rparr>]"
    using b m sv by simp
  have b2: "fst (execute ex_env (ex_client False) ''d3p_btc-price'' ex_args) =
     Inr (dumps_at None 0
             (JObj [(''error'', JStr ''L402 payment required''),
                    (''status'', JInt 402),
                    (''message'', JStr ''Service requires 5 sats via Lightning'')]))"
    using b m sv live402 by (simp add: ex_dumps str_int_5)
  show ?thesis using a1 b1 b2 by (simp add: prod_eq_iff)
qed

text \<open>
  Claim C4. When the response is not a 402 in live mode, \<^verbatim>\<open>D3POpenAI.execute\<close> returns the
  JSON text of the parsed body when \<^verbatim>\<open>resp.json()\<close> succeeds, and otherwise the first 500
  characters of the response text, so a string of at most 500 characters.
  \<^verbatim>\<open>_call_service\<close> of the MCP module returns the parsed body itself, and otherwise an
  object holding that prefix of at most 500 characters under \<^verbatim>\<open>raw\<close> beside the status.
\<close>

theorem response_payload:
  "json_loads E raw = Inr data \<Longrightarrow>
   map_of (services self) function_name = Some svc \<Longrightarrow>
   requests_post E
     \<lparr>url = x_endpoint svc, json = data,
      headers = (if mock_payments self
                 then [(''Content-Type'', ''application/json''), (''X-D3P-Cert-Test'', ''true'')]
                 else [(''Content-Type'', ''application/json'')]),
      timeout = 15\<rparr> = Inr resp \<Longrightarrow>
   \<not> (status_code resp = 402 \<and> \<not> mock_payments self) \<Longrightarrow>
   requests_post E
     \<lparr>url = ep, json = data,
      headers = (if mock
                 then [(''Content-Type'', ''application/json''), (''X-D3P-Cert-Test'', ''true'')]
                 else [(''Content-Type'', ''application/json'')]),
      timeout = 15\<rparr> = Inr mresp \<Longrightarrow>
   \<not> (status_code mresp = 402 \<and> \<not> mock) \<Longrightarrow>
   fst (execute E self function_name raw) =
     (case resp_json resp of
        Some j \<Rightarrow> Inr (json_dumps E j None)
      | None \<Rightarrow> Inr (take 500 (resp_text resp))) \<and>
   (resp_json resp = None \<longrightarrow>
      (\<exists>s. fst (execute E self function_name raw) = Inr s \<and> length s \<le> 500)) \<and>
   fst (call_service E mock ep data n) =
     (case resp_json mresp of
        Some j \<Rightarrow> Inr j
      | None \<Rightarrow> Inr (JObj [(''raw'', JStr (take 500 (resp_text mresp))),
                            (''status'', JInt (status_code mresp))])) \<and>
   length (take 500 (resp_text mresp)) \<le> 500"
  by (auto simp: execute_def call_service_def Let_def split: option.splits)

theorem response_payload_witness:
  "fst (execute ex_env (ex_client True) ''d3p_btc-price'' ex_args) =
     Inr (dumps_at None 0 (JObj [(''price'', JInt 50000)])) \<and>
   fst (execute ex_env (ex_client True) ''d3p_echo'' ex_args) = Inr (replicate 500 CHR ''x'') \<and>
   fst (call_service ex_env True ''https://example.test/api/services/echo'' ex_args_value 0) =
     Inr (JObj [(''raw'', JStr (replicate 500 CHR ''x'')), (''status'', JInt 500)])"
proof -
  let ?btc = "service.extend ex_btc
                (loaded_service.fields ''https://example.test/api/services/btc-price'')"
  let ?echo = "service.extend ex_echo
                 (loaded_service.fields ''https://example.test/api/services/echo'')"
  let ?ok = "\<lparr>status_code = 200, resp_text = dumps_at None 0 ex_price,
              resp_json = Some ex_price\<rparr>"
  let ?bad = "\<lparr>status_code = 500, resp_text = replicate 600 CHR ''x'', resp_json = None\<rparr>"
  have m: "mock_payments (ex_client True)"
    by (simp add: ex_client_def)
  have p1: "requests_post ex_env
       \<lparr>url = x_endpoint ?btc, json = ex_args_value,
        headers = (if mock_payments (ex_client True)
                   then [(''Content-Type'', ''application/json''), (''X-D3P-Cert-Test'', ''true'')]
                   else [(''Content-Type'', ''application/json'')]),
        timeout = 15\<rparr> = Inr ?ok"
    by (simp add: m ex_env_def ex_post_def service.defs loaded_service.defs)
  have p2: "requests_post ex_env
       \<lparr>url = x_endpoint ?echo, json = ex_args_value,
        headers = (if mock_payments (ex_client True)
                   then [(''Content-Type'', ''application/json''), (''X-D3P-Cert-Test'', ''true'')]
                   else [(''Content-Type'', ''application/json'')]),
        timeout = 15\<rparr> = Inr ?bad"
    by (simp add: m ex_env_def ex_post_def service.defs loaded_service.defs)
  have p3: "requests_post ex_env
       \<lparr>url = ''https://example.test/api/services/echo'', json = ex_args_value,
        headers = (if True
                   then [(''Content-Type'', ''application/json''), (''X-D3P-Cert-Test'', ''true'')]
                   else [(''Content-Type'', ''application/json'')]),
        timeout = 15\<rparr> = Inr ?bad"
    by (simp add: ex_env_def ex_post_def)
  have n1: "\<not> (status_code ?ok = 402 \<and> \<not> mock_payments (ex_client True))"
    by simp
  have n2: "\<not> (status_code ?bad = 402 \<and> \<not> mock_payments (ex_client True))"
    by simp
  have n3: "\<not> (status_code ?bad = 402 \<and> \<not> True)"
    by simp
  have t: "take 500 (replicate 600 CHR ''x'') = replicate 500 CHR ''x''"
    by simp
  note a = response_payload [OF ex_loads_args ex_lookup_btc p1 n1 p3 n3, of 0]
  note b = response_payload [OF ex_loads_args ex_lookup_echo p2 n2 p3 n3, of 0]
  show ?thesis
    using a b t by (simp add: ex_dumps ex_price_def)
qed

text \<open>
  Claim C10. In mock mode a response of status 402 is not turned into the payment-required
  object: \<^verbatim>\<open>D3POpenAI.execute\<close> and \<^verbatim>\<open>_call_service\<close> return its body by the ordinary
  path, the parsed JSON or the prefix of at most 500 characters of the text.
\<close>

theorem mock_402_not_payment_error:
  "json_loads E raw = Inr data \<Longrightarrow>
   map_of (services self) function_name = Some svc \<Longrightarrow>
   mock_payments self \<Longrightarrow>
   requests_post E
     \<lparr>url = x_endpoint svc, json = data,
      headers = [(''Content-Type'', ''application/json''), (''X-D3P-Cert-Test'', ''true'')],
      timeout = 15\<rparr> = Inr resp \<Longrightarrow>
   requests_post E
     \<lparr>url = ep, json = data,
      headers = [(''Content-Type'', ''application/json''), (''X-D3P-Cert-Test'', ''true'')],
      timeout = 15\<rparr> = Inr mresp \<Longrightarrow>
   status_code resp = 402 \<Longrightarrow>
   status_code mresp = 402 \<Longrightarrow>
   fst (execute E self function_name raw) =
     (case resp_json resp of
        Some j \<Rightarrow> Inr (json_dumps E j None)
      | None \<Rightarrow> Inr (take 500 (resp_text resp))) \<and>
   fst (call_service E True ep data n) =
     (case resp_json mresp of
        Some j \<Rightarrow> Inr j
      | None \<Rightarrow> Inr (JObj [(''raw'', JStr (take 500 (resp_text mresp))),
                            (''status'', JInt 402)]))"
  by (auto simp: execute_def call_service_def Let_def split: option.splits)

theorem mock_402_not_payment_error_witness:
  "fst (execute ex_env (ex_client True) ''d3p_weather'' ex_args) =
     Inr (dumps_at None 0 (JObj [(''detail'', JStr ''invoice'')])) \<and>
   fst (call_service ex_env True ''https://other.test/weather'' ex_args_value 2) =
     Inr (JObj [(''detail'', JStr ''invoice'')])"
proof -
  let ?w = "service.extend ex_weather (loaded_service.fields ''https://other.test/weather'')"
  let ?r = "\<lparr>status_code = 402,
             resp_text = dumps_at None 0 (JObj [(''detail'', JStr ''invoice'')]),
             resp_json = Some (JObj [(''detail'', JStr ''invoice'')])\<rparr>"
  have m: "mock_payments (ex_client True)"
    by (simp add: ex_client_def)
  have p1: "requests_post ex_env
       \<lparr>url = x_endpoint ?w, json = ex_args_value,
        headers = [(''Content-Type'', ''application/json''), (''X-D3P-Cert-Test'', ''true'')],
        timeout = 15\<rparr> = Inr ?r"
    by (simp add: ex_env_def ex_post_def service.defs loaded_service.defs)
  have p2: "requests_post ex_env
       \<lparr>url = ''https://other.test/weather'', json = ex_args_value,
        headers = [(''Content-Type'', ''application/json''), (''X-D3P-Cert-Test'', ''true'')],
        timeout = 15\<rparr> = Inr ?r"
    by (simp add: ex_env_def ex_post_def)
  have s: "status_code ?r = 402"
    by simp
  show ?thesis
    using mock_402_not_payment_error [OF ex_loads_args ex_lookup_weather m p1 p2 s s, of 2]
    by (simp add: ex_dumps)
qed

section \<open>Discovery and the derived tools\<close>

lemma update_fresh: "k \<notin> fst ` set al \<Longrightarrow> AList.update k v al = al @ [(k, v)]"
  by (induction al) auto

lemma not_startswith_default: "\<not> startswith (''/api/services/'' @ sid) ''http''"
  by (simp add: startswith_def)

lemma load_services_distinct:
  "map service_id svcs = map Some ids \<Longrightarrow> distinct ids \<Longrightarrow>
   (\<And>i. i \<in> set ids \<Longrightarrow> ''d3p_'' @ i \<notin> fst ` set tbl) \<Longrightarrow>
   load_services base svcs tbl =
     Inr (tbl @
          map (\<lambda>p. (''d3p_'' @ fst p,
                     service.extend (snd p)
                       (loaded_service.fields
                          (let ep = get_default (endpoint (snd p)) (''/api/services/'' @ fst p)
                           in if startswith ep ''http'' then ep else base @ ep))))
            (zip ids svcs))"
proof (induction svcs arbitrary: ids tbl)
  case Nil
  then show ?case by simp
next
  case (Cons svc rest)
  then obtain sid ids' where ids: "ids = sid # ids'"
    by (cases ids) auto
  from Cons.prems ids have sid: "service_id svc = Some sid"
    and rest: "map service_id rest = map Some ids'"
    and d: "distinct ids'" and nin: "sid \<notin> set ids'"
    by auto
  let ?k = "''d3p_'' @ sid"
  let ?ep = "(let ep = get_default (endpoint svc) (''/api/services/'' @ sid)
              in if startswith ep ''http'' then ep else base @ ep)"
  let ?v = "service.extend svc (loaded_service.fields ?ep)"
  have fresh: "?k \<notin> fst ` set tbl"
    using Cons.prems(3) [of sid] ids by simp
  have step: "load_services base (svc # rest) tbl = load_services base rest (tbl @ [(?k, ?v)])"
    using sid fresh by (simp add: Let_def update_fresh)
  have fresh': "\<And>i. i \<in> set ids' \<Longrightarrow> ''d3p_'' @ i \<notin> fst ` set (tbl @ [(?k, ?v)])"
    using Cons.prems(3) ids nin by auto
  show ?case
    unfolding step ids
    using Cons.IH [OF rest d fresh'] by simp
qed

lemma D3POpenAI_init_distinct:
  assumes "fetch_manifest E manifest_url = (Inr svcs, calls)"
    and "map service_id svcs = map Some ids" and "distinct ids"
  shows "D3POpenAI_init E manifest_url base mock =
     (Inr \<lparr>base_url = base, mock_payments = mock,
           services =
             map (\<lambda>p. (''d3p_'' @ fst p,
                        service.extend (snd p)
                          (loaded_service.fields
                             (let ep = get_default (endpoint (snd p)) (''/api/services/'' @ fst p)
                              in if startswith ep ''http'' then ep else base @ ep))))
               (zip ids svcs)\<rparr>,
      calls)"
  using assms(1) load_services_distinct [OF assms(2,3), of "[]" base]
  by (simp add: D3POpenAI_init_def)

lemma tools_of_entries_all:
  "map service_id svcs = map Some ids \<Longrightarrow>
   tools_of_entries mock base svcs =
     Inr (map (\<lambda>p. D3PTool_init (fst p) (Some (snd p)) mock base) (zip ids svcs))"
proof (induction svcs arbitrary: ids)
  case Nil
  then show ?case by simp
next
  case (Cons svc rest)
  then obtain sid ids' where "ids = sid # ids'"
    by (cases ids) auto
  with Cons show ?case by auto
qed

lemma crew_tools_of_entries_all:
  "map service_id svcs = map Some ids \<Longrightarrow>
   crew_tools_of_entries mock base svcs =
     Inr (map (\<lambda>p. D3PServiceTool_init (fst p) (Some (snd p)) mock base) (zip ids svcs))"
proof (induction svcs arbitrary: ids)
  case Nil
  then show ?case by simp
next
  case (Cons svc rest)
  then obtain sid ids' where "ids = sid # ids'"
    by (cases ids) auto
  with Cons show ?case by auto
qed

lemma same_length: "map service_id svcs = map Some ids \<Longrightarrow> length ids = length svcs"
  by (metis length_map)

lemma map_fst_zip_ids: "length ids = length svcs \<Longrightarrow> map (\<lambda>p. f (fst p)) (zip ids svcs) = map f ids"
  by (induction ids svcs rule: list_induct2) auto

lemma map_snd_zip_svcs: "length ids = length svcs \<Longrightarrow> map (\<lambda>p. f (snd p)) (zip ids svcs) = map f svcs"
  by (induction ids svcs rule: list_induct2) auto

lemma distinct_prefixed: "distinct ids \<Longrightarrow> distinct (map (\<lambda>i. ''d3p_'' @ i) ids)"
  by (simp add: distinct_map inj_on_def)

lemma tool_name_init [simp]: "tool_name (D3PTool_init sid e mock base) = ''d3p_'' @ sid"
  by (simp add: D3PTool_init_def Let_def)

lemma crew_tool_name_init [simp]: "tool_name (D3PServiceTool_init sid e mock base) = ''d3p_'' @ sid"
  by (simp add: D3PServiceTool_init_def Let_def)

lemma fn_name_tool_definition [simp]: "fn_name (tool_function (tool_definition (k, v))) = k"
  by (simp add: tool_definition_def Let_def)

text \<open>
  Claim C5. When the fetched manifest has N entries whose service ids are present and
  pairwise distinct, discovery succeeds and yields exactly N tools in manifest order; the
  name of each is \<^verbatim>\<open>d3p_\<close> followed by its service id, and no two names are equal.
  Stated for the tool definitions of the OpenAI wrapper, for \<^verbatim>\<open>discover_d3p_tools\<close> of
  the CrewAI file and for \<^verbatim>\<open>D3PTool.from_manifest\<close>.
\<close>

theorem discovery_one_tool_per_service:
  assumes "fetch_manifest E manifest_url = (Inr svcs, calls)"
    and "map service_id svcs = map Some ids" and "distinct ids"
  shows
   "(\<exists>self. D3POpenAI_init E manifest_url base mock = (Inr self, calls) \<and>
        length (tool_definitions self) = length svcs \<and>
        map (\<lambda>d. fn_name (tool_function d)) (tool_definitions self) = map (\<lambda>i. ''d3p_'' @ i) ids \<and>
        distinct (map (\<lambda>d. fn_name (tool_function d)) (tool_definitions self))) \<and>
    (\<exists>tools. discover_d3p_tools E manifest_url mock base = (Inr tools, calls) \<and>
        length tools = length svcs \<and>
        map tool_name tools = map (\<lambda>i. ''d3p_'' @ i) ids \<and>
        distinct (map tool_name tools)) \<and>
    (\<exists>tools. from_manifest E manifest_url mock base = (Inr tools, calls) \<and>
        length tools = length svcs \<and>
        map tool_name tools = map (\<lambda>i. ''d3p_'' @ i) ids \<and>
        distinct (map tool_name tools))"
proof -
  have len: "length ids = length svcs"
    using assms(2) by (rule same_length)
  have names: "map (\<lambda>p. ''d3p_'' @ fst p) (zip ids svcs) = map (\<lambda>i. ''d3p_'' @ i) ids"
    using len by (rule map_fst_zip_ids)
  have dist: "distinct (map (\<lambda>i. ''d3p_'' @ i) ids)"
    using assms(3) by (rule distinct_prefixed)
  have a: "\<exists>self. D3POpenAI_init E manifest_url base mock = (Inr self, calls) \<and>
        length (tool_definitions self) = length svcs \<and>
        map (\<lambda>d. fn_name (tool_function d)) (tool_definitions self) = map (\<lambda>i. ''d3p_'' @ i) ids \<and>
        distinct (map (\<lambda>d. fn_name (tool_function d)) (tool_definitions self))"
    unfolding D3POpenAI_init_distinct [OF assms]
    using len names dist
    by (simp add: tool_definitions_def comp_def case_prod_beta)
  have b: "\<exists>tools. discover_d3p_tools E manifest_url mock base = (Inr tools, calls) \<and>
        length tools = length svcs \<and>
        map tool_name tools = map (\<lambda>i. ''d3p_'' @ i) ids \<and>
        distinct (map tool_name tools)"
    using assms(1) len names dist
    by (simp add: discover_d3p_tools_def crew_tools_of_entries_all [OF assms(2)] comp_def)
  have c: "\<exists>tools. from_manifest E manifest_url mock base = (Inr tools, calls) \<and>
        length tools = length svcs \<and>
        map tool_name tools = map (\<lambda>i. ''d3p_'' @ i) ids \<and>
        distinct (map tool_name tools)"
    using assms(1) len names dist
    by (simp add: from_manifest_def tools_of_entries_all [OF assms(2)] comp_def)
  from a b c show ?thesis by blast
qed

lemma ex_fetch:
  "fetch_manifest ex_env u = (Inr ex_manifest, [Get u 10])"
  by (simp add: fetch_manifest_def ex_env_def)

lemma ex_ids:
  "map service_id ex_manifest = map Some [''btc-price'', ''echo'', ''weather'']"
  by (simp add: ex_manifest_def ex_btc_def ex_echo_def ex_weather_def)

lemma ex_ids_distinct: "distinct [''btc-price'', ''echo'', ''weather'']"
  by simp
lemma ex_names:
  "map (\<lambda>i. ''d3p_'' @ i) [''btc-price'', ''echo'', ''weather''] =
     [''d3p_btc-price'', ''d3p_echo'', ''d3p_weather'']"
  by simp

lemma ex_manifest_length: "length ex_manifest = 3"
  by (simp add: ex_manifest_def)

theorem discovery_one_tool_per_service_witness:
  "(\<exists>self. D3POpenAI_init ex_env ''https://example.test/manifest'' ''https://example.test'' True =
             (Inr self, [Get ''https://example.test/manifest'' 10]) \<and>
           length (tool_definitions self) = 3 \<and>
           map (\<lambda>d. fn_name (tool_function d)) (tool_definitions self) =
             [''d3p_btc-price'', ''d3p_echo'', ''d3p_weather''] \<and>
           distinct (map (\<lambda>d. fn_name (tool_function d)) (tool_definitions self))) \<and>
   (\<exists>tools. discover_d3p_tools ex_env ''https://example.test/manifest'' True
               ''https://example.test'' =
             (Inr tools, [Get ''https://example.test/manifest'' 10]) \<and>
           length tools = 3 \<and>
           map tool_name tools = [''d3p_btc-price'', ''d3p_echo'', ''d3p_weather''] \<and>
           distinct (map tool_name tools)) \<and>
   (\<exists>tools. from_manifest ex_env ''https://example.test/manifest'' True
               ''https://example.test'' =
             (Inr tools, [Get ''https://example.test/manifest'' 10]) \<and>
           length tools = 3 \<and>
           map tool_name tools = [''d3p_btc-price'', ''d3p_echo'', ''d3p_weather''] \<and>
           distinct (map tool_name tools))"
  using discovery_one_tool_per_service [OF ex_fetch ex_ids ex_ids_distinct,
      of "''https://example.test/manifest''" "''https://example.test''" True]
  by (simp only: ex_names ex_manifest_length)

lemma map_of_zip_keyed:
  assumes "length ids = length svcs" and "distinct (map g ids)" and "i < length svcs"
  shows "map_of (map (\<lambda>p. (g (fst p), f p)) (zip ids svcs)) (g (ids ! i)) =
         Some (f (ids ! i, svcs ! i))"
  using assms
proof (induction ids svcs arbitrary: i rule: list_induct2)
  case Nil
  then show ?case by simp
next
  case (Cons x xs y ys)
  show ?case
  proof (cases i)
    case 0
    then show ?thesis by simp
  next
    case (Suc j)
    with Cons.prems Cons.hyps have j: "j < length ys" and mem: "xs ! j \<in> set xs"
      by simp_all
    from Cons.prems(1) mem have ne: "g (xs ! j) \<noteq> g x"
      by (metis distinct.simps(2) image_eqI list.simps(9) set_map)
    from Cons.prems(1) have d: "distinct (map g xs)"
      by simp
    show ?thesis
      using Cons.IH [OF d j] ne Suc by simp
  qed
qed

lemma map_of_loaded:
  assumes "length ids = length svcs" and "distinct ids" and "i < length svcs"
  shows "map_of (map (\<lambda>p. (''d3p_'' @ fst p, f p)) (zip ids svcs)) (''d3p_'' @ ids ! i) =
         Some (f (ids ! i, svcs ! i))"
  by (rule map_of_zip_keyed [OF assms(1) distinct_prefixed [OF assms(2)] assms(3)])

lemma x_endpoint_extend [simp]: "x_endpoint (service.extend s (loaded_service.fields e)) = e"
  by (simp add: service.defs loaded_service.defs)

lemma fields_extend [simp]:
  "service_id (service.extend s (loaded_service.fields e)) = service_id s"
  "endpoint (service.extend s (loaded_service.fields e)) = endpoint s"
  "name (service.extend s (loaded_service.fields e)) = name s"
  "description (service.extend s (loaded_service.fields e)) = description s"
  "capability_category (service.extend s (loaded_service.fields e)) = capability_category s"
  "pricing (service.extend s (loaded_service.fields e)) = pricing s"
  "input_schema (service.extend s (loaded_service.fields e)) = input_schema s"
  by (simp_all add: service.defs loaded_service.defs)

lemma resolve_cases:
  "(let ep = get_default (endpoint svc) (''/api/services/'' @ sid)
    in if startswith ep ''http'' then ep else base @ ep) =
   (case endpoint svc of
      Some ep \<Rightarrow> if startswith ep ''http'' then ep else base @ ep
    | None \<Rightarrow> base @ ''/api/services/'' @ sid)"
  by (simp add: Let_def get_default_def startswith_def split: option.splits)

lemma execute_calls:
  "json_loads E raw = Inr data \<Longrightarrow>
   map_of (services self) function_name = Some svc \<Longrightarrow>
   snd (execute E self function_name raw) =
     [Post \<lparr>url = x_endpoint svc, json = data,
            headers = (if mock_payments self
                       then [(''Content-Type'', ''application/json''),
                             (''X-D3P-Cert-Test'', ''true'')]
                       else [(''Content-Type'', ''application/json'')]),
            timeout = 15\<rparr>]"
  by (auto simp: execute_def Let_def split: sum.splits)

lemma D3PTool_run_calls:
  "json_loads E raw = Inr data \<Longrightarrow>
   snd (D3PTool_run E t raw) =
     [Post \<lparr>url = tool_endpoint t, json = data,
            headers = (if tool_mock_payments t
                       then [(''Content-Type'', ''application/json''),
                             (''X-D3P-Cert-Test'', ''true'')]
                       else [(''Content-Type'', ''application/json'')]),
            timeout = 15\<rparr>]"
  by (auto simp: D3PTool_run_def Let_def split: sum.splits)

lemma D3PTool_init_endpoint:
  "tool_endpoint (D3PTool_init sid (Some svc) mock base) =
     (case endpoint svc of
        Some ep \<Rightarrow> if startswith ep ''http'' then ep else base @ ep
      | None \<Rightarrow> base @ ''/api/services/'' @ sid)"
  by (simp add: D3PTool_init_def Let_def get_default_def startswith_def split: option.splits)

lemma D3PTool_init_mock [simp]:
  "tool_mock_payments (D3PTool_init sid e mock base) = mock"
  by (simp add: D3PTool_init_def Let_def)

text \<open>
  Claim C6. Loading resolves the endpoint of every manifest entry once: an endpoint that
  starts with \<^verbatim>\<open>http\<close> is kept unchanged, any other is appended to the base URL (an
  entry without endpoint gets the base URL followed by \<^verbatim>\<open>/api/services/\<close> and its id).
  The resolved value is what the table of the OpenAI wrapper and the LangChain tool
  store, and it is the URL of the request a later dispatch sends. The worked example
  is the entry \<^verbatim>\<open>btc-price\<close> with base \<^verbatim>\<open>https://example.test\<close>.
\<close>

theorem endpoint_resolved_at_load:
  assumes "fetch_manifest E manifest_url = (Inr svcs, calls)"
    and "map service_id svcs = map Some ids" and "distinct ids"
    and "i < length svcs"
    and "json_loads E raw = Inr data"
    and "resolved =
           (case endpoint (svcs ! i) of
              Some ep \<Rightarrow> if startswith ep ''http'' then ep else base @ ep
            | None \<Rightarrow> base @ ''/api/services/'' @ ids ! i)"
  shows
   "(\<exists>self svc req.
       D3POpenAI_init E manifest_url base mock = (Inr self, calls) \<and>
       map_of (services self) (''d3p_'' @ ids ! i) = Some svc \<and>
       x_endpoint svc = resolved \<and>
       snd (execute E self (''d3p_'' @ ids ! i) raw) = [Post req] \<and>
       url req = resolved) \<and>
    tool_endpoint (D3PTool_init (ids ! i) (Some (svcs ! i)) mock base) = resolved \<and>
    snd (D3PTool_run E (D3PTool_init (ids ! i) (Some (svcs ! i)) mock base) raw) =
      [Post \<lparr>url = resolved, json = data,
             headers = (if mock
                        then [(''Content-Type'', ''application/json''),
                              (''X-D3P-Cert-Test'', ''true'')]
                        else [(''Content-Type'', ''application/json'')]),
             timeout = 15\<rparr>]"
proof -
  have len: "length ids = length svcs"
    using assms(2) by (rule same_length)
  define f :: "string \<times> service \<Rightarrow> loaded_service" where
    "f = (\<lambda>p. service.extend (snd p)
                 (loaded_service.fields
                    (let ep = get_default (endpoint (snd p)) (''/api/services/'' @ fst p)
                     in if startswith ep ''http'' then ep else base @ ep)))"
  define self where
    "self = \<lparr>base_url = base, mock_payments = mock,
             services = map (\<lambda>p. (''d3p_'' @ fst p, f p)) (zip ids svcs)\<rparr>"
  define svc where "svc = f (ids ! i, svcs ! i)"
  have init: "D3POpenAI_init E manifest_url base mock = (Inr self, calls)"
    unfolding self_def f_def by (rule D3POpenAI_init_distinct [OF assms(1-3)])
  have sv: "services self = map (\<lambda>p. (''d3p_'' @ fst p, f p)) (zip ids svcs)"
    by (simp add: self_def)
  have look: "map_of (services self) (''d3p_'' @ ids ! i) = Some svc"
    unfolding sv svc_def by (rule map_of_loaded [OF len assms(3,4)])
  have xe: "x_endpoint svc = resolved"
    unfolding svc_def f_def assms(6)
    by (simp only: x_endpoint_extend fst_conv snd_conv resolve_cases)
  have ex: "\<exists>req. snd (execute E self (''d3p_'' @ ids ! i) raw) = [Post req] \<and> url req = resolved"
    unfolding execute_calls [OF assms(5) look] using xe by simp
  have te: "tool_endpoint (D3PTool_init (ids ! i) (Some (svcs ! i)) mock base) = resolved"
    unfolding assms(6) by (rule D3PTool_init_endpoint)
  have run: "snd (D3PTool_run E (D3PTool_init (ids ! i) (Some (svcs ! i)) mock base) raw) =
      [Post \<lparr>url = resolved, json = data,
             headers = (if mock
                        then [(''Content-Type'', ''application/json''),
                              (''X-D3P-Cert-Test'', ''true'')]
                        else [(''Content-Type'', ''application/json'')]),
             timeout = 15\<rparr>]"
    unfolding D3PTool_run_calls [OF assms(5)] te by simp
  from init look xe ex te run show ?thesis by blast
qed

lemma ex_first:
  "[''btc-price'', ''echo'', ''weather''] ! 0 = ''btc-price''"
  "ex_manifest ! 0 = ex_btc"
  "''d3p_'' @ ''btc-price'' = ''d3p_btc-price''"
  "(0::nat) < length ex_manifest"
  by (simp_all add: ex_manifest_def)

lemma ex_btc_resolved:
  "''https://example.test/api/services/btc-price'' =
     (case endpoint (ex_manifest ! 0) of
        Some ep \<Rightarrow> if startswith ep ''http'' then ep else ''https://example.test'' @ ep
      | None \<Rightarrow> ''https://example.test'' @ ''/api/services/'' @ [''btc-price'', ''echo'', ''weather''] ! 0)"
  by (simp add: ex_manifest_def ex_btc_def startswith_def)

theorem endpoint_resolved_at_load_witness:
  "(\<exists>self svc req.
       D3POpenAI_init ex_env ''https://example.test/manifest'' ''https://example.test'' True =
         (Inr self, [Get ''https://example.test/manifest'' 10]) \<and>
       map_of (services self) ''d3p_btc-price'' = Some svc \<and>
       x_endpoint svc = ''https://example.test/api/services/btc-price'' \<and>
       snd (execute ex_env self ''d3p_btc-price'' ex_args) = [Post req] \<and>
       url req = ''https://example.test/api/services/btc-price'') \<and>
    tool_endpoint (D3PTool_init ''btc-price'' (Some ex_btc) True ''https://example.test'') =
      ''https://example.test/api/services/btc-price'' \<and>
    snd (D3PTool_run ex_env
           (D3PTool_init ''btc-price'' (Some ex_btc) True ''https://example.test'') ex_args) =
      [Post \<lparr>url = ''https://example.test/api/services/btc-price'', json = ex_args_value,
             headers = [(''Content-Type'', ''application/json''),
                        (''X-D3P-Cert-Test'', ''true'')],
             timeout = 15\<rparr>]"
  using endpoint_resolved_at_load [OF ex_fetch ex_ids ex_ids_distinct ex_first(4)
      ex_loads_args ex_btc_resolved, of "''https://example.test/manifest''" True]
  by (simp only: ex_first if_True)

text \<open>
  Claim C8. The parameter schema that \<^verbatim>\<open>tool_definitions\<close> derives for a service has type
  \<^verbatim>\<open>object\<close>, its properties are the properties of the input schema of the manifest
  entry (none when the schema or its properties are absent), and its required list is
  the list of the names of those properties, every one of them and nothing else.
\<close>

theorem parameter_schema_all_required:
  assumes "fetch_manifest E manifest_url = (Inr svcs, calls)"
    and "map service_id svcs = map Some ids" and "distinct ids"
  shows
   "(\<exists>self. D3POpenAI_init E manifest_url base mock = (Inr self, calls) \<and>
        map (\<lambda>d. fn_parameters (tool_function d)) (tool_definitions self) =
          map (\<lambda>svc.
                 \<lparr>params_type = ''object'',
                  params_properties =
                    (case input_schema svc of
                       None \<Rightarrow> []
                     | Some sch \<Rightarrow> (case properties sch of None \<Rightarrow> [] | Some ps \<Rightarrow> ps)),
                  params_required =
                    map fst
                      (case input_schema svc of
                         None \<Rightarrow> []
                       | Some sch \<Rightarrow> (case properties sch of None \<Rightarrow> [] | Some ps \<Rightarrow> ps))\<rparr>)
            svcs) \<and>
    params_type (fn_parameters (tool_function (tool_definition (k, lsvc)))) = ''object'' \<and>
    params_required (fn_parameters (tool_function (tool_definition (k, lsvc)))) =
      map fst (params_properties (fn_parameters (tool_function (tool_definition (k, lsvc))))) \<and>
    set (params_required (fn_parameters (tool_function (tool_definition (k, lsvc))))) =
      fst ` set (params_properties (fn_parameters (tool_function (tool_definition (k, lsvc)))))"
proof -
  have len: "length ids = length svcs"
    using assms(2) by (rule same_length)
  have params:
    "\<And>kk s e. fn_parameters (tool_function (tool_definition
                  (kk, service.extend s (loaded_service.fields e)))) =
       \<lparr>params_type = ''object'',
        params_properties =
          (case input_schema s of
             None \<Rightarrow> []
           | Some sch \<Rightarrow> (case properties sch of None \<Rightarrow> [] | Some ps \<Rightarrow> ps)),
        params_required =
          map fst
            (case input_schema s of
               None \<Rightarrow> []
             | Some sch \<Rightarrow> (case properties sch of None \<Rightarrow> [] | Some ps \<Rightarrow> ps))\<rparr>"
    by (simp add: tool_definition_def Let_def get_default_def split: option.splits)
  have a: "\<exists>self. D3POpenAI_init E manifest_url base mock = (Inr self, calls) \<and>
        map (\<lambda>d. fn_parameters (tool_function d)) (tool_definitions self) =
          map (\<lambda>svc.
                 \<lparr>params_type = ''object'',
                  params_properties =
                    (case input_schema svc of
                       None \<Rightarrow> []
                     | Some sch \<Rightarrow> (case properties sch of None \<Rightarrow> [] | Some ps \<Rightarrow> ps)),
                  params_required =
                    map fst
                      (case input_schema svc of
                         None \<Rightarrow> []
                       | Some sch \<Rightarrow> (case properties sch of None \<Rightarrow> [] | Some ps \<Rightarrow> ps))\<rparr>)
            svcs"
    unfolding D3POpenAI_init_distinct [OF assms]
    apply (simp add: tool_definitions_def comp_def params)
    apply (rule map_snd_zip_svcs [OF len])
    done
  have b: "params_type (fn_parameters (tool_function (tool_definition (k, lsvc)))) = ''object''"
    "params_required (fn_parameters (tool_function (tool_definition (k, lsvc)))) =
      map fst (params_properties (fn_parameters (tool_function (tool_definition (k, lsvc)))))"
    by (simp_all add: tool_definition_def Let_def)
  have c: "set (params_required (fn_parameters (tool_function (tool_definition (k, lsvc))))) =
      fst ` set (params_properties (fn_parameters (tool_function (tool_definition (k, lsvc)))))"
    unfolding b(2) by simp
  from a b c show ?thesis by blast
qed

lemma register_services_distinct:
  "map service_id svcs = map Some ids \<Longrightarrow> distinct ids \<Longrightarrow>
   (\<And>i. i \<in> set ids \<Longrightarrow> i \<notin> fst ` set (fst st)) \<Longrightarrow>
   register_services base svcs st =
     Inr (fst st @
            map (\<lambda>p. (fst p,
                       service.extend (snd p)
                         (loaded_service.fields
                            (let ep = get_default (endpoint (snd p)) (''/api/services/'' @ fst p)
                             in if startswith ep ''http'' then ep else base @ ep))))
              (zip ids svcs),
          snd st @
            map (\<lambda>p. make_tool (fst p)
                       (let ep = get_default (endpoint (snd p)) (''/api/services/'' @ fst p)
                        in if startswith ep ''http'' then ep else base @ ep)
                       (get_default (sats (get_default (pricing (snd p)) \<lparr>sats = None\<rparr>)) 0)
                       (get_default (description (snd p)) '''' @ '' [''
                          @ get_default (capability_category (snd p)) '''' @ '', ''
                          @ str_int (get_default
                                       (sats (get_default (pricing (snd p)) \<lparr>sats = None\<rparr>)) 0)
                          @ '' sats]'')
                       (join ''; ''
                          (map (\<lambda>kv. fst kv @ '': ''
                                  @ get_default (prop_description (snd kv))
                                      (get_default (prop_type (snd kv)) ''''))
                             (get_default
                                (properties
                                   (get_default (input_schema (snd p)) \<lparr>properties = None\<rparr>))
                                []))))
              (zip ids svcs))"
proof (induction svcs arbitrary: ids st)
  case Nil
  then show ?case by simp
next
  case (Cons svc rest)
  then obtain sid ids' where ids: "ids = sid # ids'"
    by (cases ids) auto
  from Cons.prems ids have sid: "service_id svc = Some sid"
    and rest: "map service_id rest = map Some ids'"
    and d: "distinct ids'" and nin: "sid \<notin> set ids'"
    by auto
  have fresh: "sid \<notin> fst ` set (fst st)"
    using Cons.prems(3) [of sid] ids by simp
  define ep where
    "ep = (let ep = get_default (endpoint svc) (''/api/services/'' @ sid)
           in if startswith ep ''http'' then ep else base @ ep)"
  define v where "v = service.extend svc (loaded_service.fields ep)"
  define t where
    "t = make_tool sid ep
           (get_default (sats (get_default (pricing svc) \<lparr>sats = None\<rparr>)) 0)
           (get_default (description svc) '''' @ '' [''
              @ get_default (capability_category svc) '''' @ '', ''
              @ str_int (get_default (sats (get_default (pricing svc) \<lparr>sats = None\<rparr>)) 0)
              @ '' sats]'')
           (join ''; ''
              (map (\<lambda>kv. fst kv @ '': ''
                      @ get_default (prop_description (snd kv))
                          (get_default (prop_type (snd kv)) ''''))
                 (get_default
                    (properties (get_default (input_schema svc) \<lparr>properties = None\<rparr>)) [])))"
  have step: "register_services base (svc # rest) st =
                register_services base rest (fst st @ [(sid, v)], snd st @ [t])"
    using sid fresh by (simp add: Let_def update_fresh ep_def v_def t_def)
  have fresh': "\<And>i. i \<in> set ids' \<Longrightarrow> i \<notin> fst ` set (fst (fst st @ [(sid, v)], snd st @ [t]))"
    using Cons.prems(3) ids nin by auto
  show ?case
    unfolding step ids
    using Cons.IH [OF rest d fresh'] by (simp add: ep_def v_def t_def)
qed

lemma list_services_openai_loaded:
  "map service_id svcs = map Some ids \<Longrightarrow>
   list_services_openai
     (map (\<lambda>p. (g p, service.extend (snd p) (loaded_service.fields (h p)))) (zip ids svcs)) =
   Inr (map (\<lambda>p. \<lparr>sum_function = g p,
                    sum_service_id = fst p,
                    sum_name = (case name (snd p) of None \<Rightarrow> '''' | Some n \<Rightarrow> n),
                    sum_category =
                      (case capability_category (snd p) of None \<Rightarrow> '''' | Some c \<Rightarrow> c),
                    sum_sats =
                      (case pricing (snd p) of
                         None \<Rightarrow> 0
                       | Some pr \<Rightarrow> (case sats pr of None \<Rightarrow> 0 | Some n \<Rightarrow> n))\<rparr>)
          (zip ids svcs))"
proof (induction svcs arbitrary: ids)
  case Nil
  then show ?case by simp
next
  case (Cons svc rest)
  then obtain sid ids' where ids: "ids = sid # ids'"
    by (cases ids) auto
  with Cons.prems have sid: "service_id svc = Some sid"
    and rest: "map service_id rest = map Some ids'"
    by auto
  show ?case
    unfolding ids using sid Cons.IH [OF rest]
    by (simp add: get_default_def split: option.splits)
qed

lemma mcp_summary_loaded:
  "map service_id svcs = map Some ids \<Longrightarrow>
   mcp_summary
     (map (\<lambda>p. (g p, service.extend (snd p) (loaded_service.fields (h p)))) (zip ids svcs)) =
   Inr (map (\<lambda>p. JObj [(''service_id'', JStr (fst p)),
                       (''name'', JStr (case name (snd p) of None \<Rightarrow> '''' | Some n \<Rightarrow> n)),
                       (''category'',
                        JStr (case capability_category (snd p) of None \<Rightarrow> '''' | Some c \<Rightarrow> c)),
                       (''sats'',
                        JInt (case pricing (snd p) of
                                None \<Rightarrow> 0
                              | Some pr \<Rightarrow> (case sats pr of None \<Rightarrow> 0 | Some n \<Rightarrow> n))),
                       (''description'',
                        JStr (case description (snd p) of None \<Rightarrow> '''' | Some d \<Rightarrow> d))])
          (zip ids svcs))"
proof (induction svcs arbitrary: ids)
  case Nil
  then show ?case by simp
next
  case (Cons svc rest)
  then obtain sid ids' where ids: "ids = sid # ids'"
    by (cases ids) auto
  with Cons.prems have sid: "service_id svc = Some sid"
    and rest: "map service_id rest = map Some ids'"
    by auto
  show ?case
    unfolding ids using sid Cons.IH [OF rest]
    by (simp add: get_default_def split: option.splits)
qed

lemma get_default_simps [simp]:
  "get_default (Some x) d = x"
  "get_default None d = d"
  by (simp_all add: get_default_def)

lemma str_int_0: "str_int 0 = ''0''"
  by (simp add: str_int_def str_nat.simps digit_char_def)

lemma D3PTool_init_all_absent:
  "description svc = None \<Longrightarrow> capability_category svc = None \<Longrightarrow> pricing svc = None \<Longrightarrow>
   input_schema svc = None \<Longrightarrow>
   tool_description (D3PTool_init sid (Some svc) mock base) =
     ''Call the '' @ sid @ '' d3p service [, 0 sats]. Input fields: see docs. ''
       @ ''Pass a JSON string as payload.'' \<and>
   pricing_sats (D3PTool_init sid (Some svc) mock base) = 0 \<and>
   service_schema (D3PTool_init sid (Some svc) mock base) = \<lparr>properties = None\<rparr>"
  by (simp add: D3PTool_init_def Let_def get_default_def str_or_def str_int_0)

lemma D3PTool_init_no_properties:
  "get_default (properties (get_default (input_schema svc) \<lparr>properties = None\<rparr>)) [] = [] \<Longrightarrow>
   tool_description (D3PTool_init sid (Some svc) mock base) =
     get_default (description svc) (''Call the '' @ sid @ '' d3p service'')
       @ '' ['' @ get_default (capability_category svc) '''' @ '', ''
       @ str_int (get_default (sats (get_default (pricing svc) \<lparr>sats = None\<rparr>)) 0)
       @ '' sats]. Input fields: see docs. Pass a JSON string as payload.''"
  by (simp add: D3PTool_init_def Let_def str_or_def)

lemma tool_definition_no_properties:
  "get_default (properties (get_default (input_schema svc) \<lparr>properties = None\<rparr>)) [] = [] \<Longrightarrow>
   fn_parameters (tool_function
      (tool_definition (k, service.extend svc (loaded_service.fields ep)))) =
     \<lparr>params_type = ''object'', params_properties = [], params_required = []\<rparr>"
  by (auto simp: tool_definition_def Let_def get_default_def split: option.splits)

lemma join_nonempty:
  "xs \<noteq> [] \<Longrightarrow> (\<And>x. x \<in> set xs \<Longrightarrow> x \<noteq> []) \<Longrightarrow> join sep xs \<noteq> []"
  by (induction sep xs rule: join.induct) auto

lemma str_or_fields:
  "str_or (join '', '' (map (\<lambda>kv. fst kv @ '' ('' @ get_default (prop_type (snd kv)) '''' @ '')'')
                          props)) ''see docs'' =
   (if props = [] then ''see docs''
    else join '', '' (map (\<lambda>kv. fst kv @ '' ('' @ get_default (prop_type (snd kv)) '''' @ '')'')
                        props))"
proof (cases "props = []")
  case True
  then show ?thesis by (simp add: str_or_def)
next
  case False
  have "join '', '' (map (\<lambda>kv. fst kv @ '' ('' @ get_default (prop_type (snd kv)) '''' @ '')'')
                       props) \<noteq> []"
    using False by (intro join_nonempty) auto
  with False show ?thesis by (simp add: str_or_def)
qed

lemma str_or_param_doc:
  "str_or (join ''; '' (map (\<lambda>kv. fst kv @ '': ''
                                @ get_default (prop_description (snd kv))
                                    (get_default (prop_type (snd kv)) ''''))
                          props)) ''see docs'' =
   (if props = [] then ''see docs''
    else join ''; '' (map (\<lambda>kv. fst kv @ '': ''
                              @ get_default (prop_description (snd kv))
                                  (get_default (prop_type (snd kv)) ''''))
                        props))"
proof (cases "props = []")
  case True
  then show ?thesis by (simp add: str_or_def)
next
  case False
  have "join ''; '' (map (\<lambda>kv. fst kv @ '': ''
                            @ get_default (prop_description (snd kv))
                                (get_default (prop_type (snd kv)) ''''))
                       props) \<noteq> []"
    using False by (intro join_nonempty) auto
  with False show ?thesis by (simp add: str_or_def)
qed

lemma D3PTool_init_full:
  "D3PTool_init sid (Some svc) mock base =
     \<lparr>tool_name = ''d3p_'' @ sid,
      tool_description =
        get_default (description svc) (''Call the '' @ sid @ '' d3p service'')
          @ '' ['' @ get_default (capability_category svc) '''' @ '', ''
          @ str_int (get_default (sats (get_default (pricing svc) \<lparr>sats = None\<rparr>)) 0)
          @ '' sats]. Input fields: ''
          @ (if get_default (properties (get_default (input_schema svc) \<lparr>properties = None\<rparr>)) []
                = []
             then ''see docs''
             else join '', ''
                    (map (\<lambda>kv. fst kv @ '' ('' @ get_default (prop_type (snd kv)) '''' @ '')'')
                       (get_default
                          (properties (get_default (input_schema svc) \<lparr>properties = None\<rparr>)) [])))
          @ ''. Pass a JSON string as payload.'',
      tool_service_id = sid,
      tool_endpoint =
        (case endpoint svc of
           Some ep \<Rightarrow> if startswith ep ''http'' then ep else base @ ep
         | None \<Rightarrow> base @ ''/api/services/'' @ sid),
      pricing_sats = get_default (sats (get_default (pricing svc) \<lparr>sats = None\<rparr>)) 0,
      tool_mock_payments = mock,
      tool_base_url = base,
      service_schema = get_default (input_schema svc) \<lparr>properties = None\<rparr>\<rparr>"
  unfolding D3PTool_init_def Let_def str_or_fields
  by (simp add: get_default_def startswith_def split: option.splits)

lemma tool_definition_full:
  "tool_definition (k, service.extend svc (loaded_service.fields ep)) =
     \<lparr>tool_type = ''function'',
      tool_function =
        \<lparr>fn_name = k,
         fn_description =
           get_default (description svc) '''' @ '' ['' @ get_default (capability_category svc) ''''
             @ '', '' @ str_int (get_default (sats (get_default (pricing svc) \<lparr>sats = None\<rparr>)) 0)
             @ '' sats]'',
         fn_parameters =
           \<lparr>params_type = ''object'',
            params_properties =
              get_default (properties (get_default (input_schema svc) \<lparr>properties = None\<rparr>)) [],
            params_required =
              map fst
                (get_default (properties (get_default (input_schema svc) \<lparr>properties = None\<rparr>))
                   [])\<rparr>\<rparr>\<rparr>"
  by (simp add: tool_definition_def Let_def get_default_def split: option.splits)

lemma register_one_full:
  "service_id svc = Some sid \<Longrightarrow>
   register_services base [svc] ([], []) =
     Inr ([(sid,
            service.extend svc
              (loaded_service.fields
                 (case endpoint svc of
                    Some ep \<Rightarrow> if startswith ep ''http'' then ep else base @ ep
                  | None \<Rightarrow> base @ ''/api/services/'' @ sid)))],
          [\<lparr>reg_name = ''d3p_'' @ sid,
            reg_description =
              get_default (description svc) '''' @ '' [''
                @ get_default (capability_category svc) '''' @ '', ''
                @ str_int (get_default (sats (get_default (pricing svc) \<lparr>sats = None\<rparr>)) 0)
                @ '' sats]'',
            fn_dunder_name = ''d3p_'' @ sid,
            fn_doc =
              get_default (description svc) '''' @ '' [''
                @ get_default (capability_category svc) '''' @ '', ''
                @ str_int (get_default (sats (get_default (pricing svc) \<lparr>sats = None\<rparr>)) 0)
                @ '' sats]. Input (JSON string): ''
                @ (if get_default
                        (properties (get_default (input_schema svc) \<lparr>properties = None\<rparr>)) [] = []
                   then ''see docs''
                   else join ''; ''
                          (map (\<lambda>kv. fst kv @ '': ''
                                  @ get_default (prop_description (snd kv))
                                      (get_default (prop_type (snd kv)) ''''))
                             (get_default
                                (properties (get_default (input_schema svc) \<lparr>properties = None\<rparr>))
                                []))),
            fn_endpoint =
              (case endpoint svc of
                 Some ep \<Rightarrow> if startswith ep ''http'' then ep else base @ ep
               | None \<Rightarrow> base @ ''/api/services/'' @ sid),
            fn_sats = get_default (sats (get_default (pricing svc) \<lparr>sats = None\<rparr>)) 0\<rparr>])"
  unfolding register_services.simps Let_def make_tool_def str_or_param_doc
  by (simp add: get_default_def startswith_def split: option.splits)

lemma load_one:
  "service_id svc = Some sid \<Longrightarrow>
   load_services base [svc] [] =
     Inr [(''d3p_'' @ sid,
           service.extend svc
             (loaded_service.fields
                (case endpoint svc of
                   Some ep \<Rightarrow> if startswith ep ''http'' then ep else base @ ep
                 | None \<Rightarrow> base @ ''/api/services/'' @ sid)))]"
  by (simp add: Let_def get_default_def startswith_def split: option.splits)

lemma tool_definition_all_absent:
  "description svc = None \<Longrightarrow> capability_category svc = None \<Longrightarrow> pricing svc = None \<Longrightarrow>
   fn_description (tool_function
      (tool_definition (k, service.extend svc (loaded_service.fields ep)))) = '' [, 0 sats]''"
  by (simp add: tool_definition_full str_int_0)

text \<open>
  Claim C7, as amended. Building a tool from an entry that has a service id succeeds in
  every adapter whatever other keys are absent; the builders take no environment and make
  no call. An absent price is 0, an absent category the empty string, absent properties
  the empty list. An absent description is the generated text
  \<^verbatim>\<open>Call the <id> d3p service\<close> in the LangChain and CrewAI tools, and the empty string
  in the MCP registration and in the OpenAI definition. When the properties are empty the
  LangChain and CrewAI description and the docstring of the MCP closure say \<^verbatim>\<open>see docs\<close>
  in place of the list of fields, and the OpenAI parameter schema is the empty object
  schema. The theorem gives every built value in full, for any entry.
\<close>

theorem build_defaults:
  assumes "service_id svc = Some sid"
    and "props = get_default (properties (get_default (input_schema svc) \<lparr>properties = None\<rparr>)) []"
    and "cost = get_default (sats (get_default (pricing svc) \<lparr>sats = None\<rparr>)) 0"
    and "resolved =
           (case endpoint svc of
              Some ep \<Rightarrow> if startswith ep ''http'' then ep else base @ ep
            | None \<Rightarrow> base @ ''/api/services/'' @ sid)"
  shows
   "tools_of_entries mock base [svc] = Inr [D3PTool_init sid (Some svc) mock base] \<and>
    crew_tools_of_entries mock base [svc] = Inr [D3PServiceTool_init sid (Some svc) mock base] \<and>
    D3PServiceTool_init sid (Some svc) mock base = D3PTool_init sid (Some svc) mock base \<and>
    D3PTool_init sid (Some svc) mock base =
      \<lparr>tool_name = ''d3p_'' @ sid,
       tool_description =
         get_default (description svc) (''Call the '' @ sid @ '' d3p service'')
           @ '' ['' @ get_default (capability_category svc) '''' @ '', '' @ str_int cost
           @ '' sats]. Input fields: ''
           @ (if props = [] then ''see docs''
              else join '', ''
                     (map (\<lambda>kv. fst kv @ '' ('' @ get_default (prop_type (snd kv)) '''' @ '')'')
                        props))
           @ ''. Pass a JSON string as payload.'',
       tool_service_id = sid,
       tool_endpoint = resolved,
       pricing_sats = cost,
       tool_mock_payments = mock,
       tool_base_url = base,
       service_schema = get_default (input_schema svc) \<lparr>properties = None\<rparr>\<rparr> \<and>
    load_services base [svc] [] =
      Inr [(''d3p_'' @ sid, service.extend svc (loaded_service.fields resolved))] \<and>
    tool_definition (k, service.extend svc (loaded_service.fields ep)) =
      \<lparr>tool_type = ''function'',
       tool_function =
         \<lparr>fn_name = k,
          fn_description =
            get_default (description svc) '''' @ '' [''
              @ get_default (capability_category svc) '''' @ '', '' @ str_int cost @ '' sats]'',
          fn_parameters =
            \<lparr>params_type = ''object'', params_properties = props,
             params_required = map fst props\<rparr>\<rparr>\<rparr> \<and>
    register_services base [svc] ([], []) =
      Inr ([(sid, service.extend svc (loaded_service.fields resolved))],
           [\<lparr>reg_name = ''d3p_'' @ sid,
             reg_description =
               get_default (description svc) '''' @ '' [''
                 @ get_default (capability_category svc) '''' @ '', '' @ str_int cost
                 @ '' sats]'',
             fn_dunder_name = ''d3p_'' @ sid,
             fn_doc =
               get_default (description svc) '''' @ '' [''
                 @ get_default (capability_category svc) '''' @ '', '' @ str_int cost
                 @ '' sats]. Input (JSON string): ''
                 @ (if props = [] then ''see docs''
                    else join ''; ''
                           (map (\<lambda>kv. fst kv @ '': ''
                                   @ get_default (prop_description (snd kv))
                                       (get_default (prop_type (snd kv)) ''''))
                              props)),
             fn_endpoint = resolved,
             fn_sats = cost\<rparr>]) \<and>
    (description svc = None \<and> capability_category svc = None \<and> pricing svc = None \<and>
     input_schema svc = None \<longrightarrow>
       tool_description (D3PTool_init sid (Some svc) mock base) =
         ''Call the '' @ sid @ '' d3p service [, 0 sats]. Input fields: see docs. ''
           @ ''Pass a JSON string as payload.'' \<and>
       pricing_sats (D3PTool_init sid (Some svc) mock base) = 0 \<and>
       service_schema (D3PTool_init sid (Some svc) mock base) = \<lparr>properties = None\<rparr> \<and>
       fn_description (tool_function
          (tool_definition (k, service.extend svc (loaded_service.fields ep)))) =
         '' [, 0 sats]'') \<and>
    (props = [] \<longrightarrow>
       tool_description (D3PTool_init sid (Some svc) mock base) =
         get_default (description svc) (''Call the '' @ sid @ '' d3p service'')
           @ '' ['' @ get_default (capability_category svc) '''' @ '', '' @ str_int cost
           @ '' sats]. Input fields: see docs. Pass a JSON string as payload.'' \<and>
       fn_parameters (tool_function
          (tool_definition (k, service.extend svc (loaded_service.fields ep)))) =
         \<lparr>params_type = ''object'', params_properties = [], params_required = []\<rparr>)"
proof -
  have a: "tools_of_entries mock base [svc] = Inr [D3PTool_init sid (Some svc) mock base]"
    using assms(1) by simp
  have b: "crew_tools_of_entries mock base [svc] =
             Inr [D3PServiceTool_init sid (Some svc) mock base]"
    using assms(1) by simp
  have c: "D3PServiceTool_init sid (Some svc) mock base = D3PTool_init sid (Some svc) mock base"
    by (simp add: D3PServiceTool_init_def D3PTool_init_def)
  note d = D3PTool_init_full [of sid svc mock base]
  note e = load_one [OF assms(1), of base]
  note f = tool_definition_full [of k svc ep]
  note g = register_one_full [OF assms(1), of base]
  note h = D3PTool_init_all_absent [of svc sid mock base]
  note i = tool_definition_all_absent [of svc k ep]
  note j = D3PTool_init_no_properties [of svc sid mock base]
  note l = tool_definition_no_properties [of svc k ep]
  show ?thesis
    unfolding assms(2,3,4)
    using a b c d e f g h i j l by blast
qed

text \<open>
  Claim C9, as amended. For a manifest with pairwise distinct service ids the listing
  returns one record per loaded service in manifest order. The listing of the MCP module
  has exactly the fields \<^verbatim>\<open>service_id\<close>, \<^verbatim>\<open>name\<close>, \<^verbatim>\<open>category\<close>, \<^verbatim>\<open>sats\<close>,
  \<^verbatim>\<open>description\<close>; the listing of the OpenAI wrapper has \<^verbatim>\<open>function\<close>, \<^verbatim>\<open>service_id\<close>,
  \<^verbatim>\<open>name\<close>, \<^verbatim>\<open>category\<close>, \<^verbatim>\<open>sats\<close>. The name of a service whose entry has no name
  is the empty string. Both listings are functions of the table alone: they make no
  outbound call and return no new table.
\<close>

theorem listing_in_manifest_order:
  assumes "fetch_manifest E manifest_url = (Inr svcs, calls)"
    and "map service_id svcs = map Some ids" and "distinct ids"
  shows
   "(\<exists>self. D3POpenAI_init E manifest_url base mock = (Inr self, calls) \<and>
       list_services self =
         Inr (map (\<lambda>p. \<lparr>sum_function = ''d3p_'' @ fst p,
                          sum_service_id = fst p,
                          sum_name = (case name (snd p) of None \<Rightarrow> '''' | Some n \<Rightarrow> n),
                          sum_category =
                            (case capability_category (snd p) of None \<Rightarrow> '''' | Some c \<Rightarrow> c),
                          sum_sats =
                            (case pricing (snd p) of
                               None \<Rightarrow> 0
                             | Some pr \<Rightarrow> (case sats pr of None \<Rightarrow> 0 | Some n \<Rightarrow> n))\<rparr>)
                (zip ids svcs))) \<and>
    (\<exists>tbl tools. mcp_module E manifest_url base = (Inr (tbl, tools), calls) \<and>
       mcp_list_services E tbl =
         Inr (json_dumps E
                (JArr (map (\<lambda>p. JObj [(''service_id'', JStr (fst p)),
                                       (''name'',
                                        JStr (case name (snd p) of None \<Rightarrow> '''' | Some n \<Rightarrow> n)),
                                       (''category'',
                                        JStr (case capability_category (snd p) of
                                                None \<Rightarrow> '''' | Some c \<Rightarrow> c)),
                                       (''sats'',
                                        JInt (case pricing (snd p) of
                                                None \<Rightarrow> 0
                                              | Some pr \<Rightarrow>
                                                  (case sats pr of None \<Rightarrow> 0 | Some n \<Rightarrow> n))),
                                       (''description'',
                                        JStr (case description (snd p) of
                                                None \<Rightarrow> '''' | Some d \<Rightarrow> d))])
                         (zip ids svcs)))
                (Some 2)))"
proof -
  have a: "\<exists>self. D3POpenAI_init E manifest_url base mock = (Inr self, calls) \<and>
       list_services self =
         Inr (map (\<lambda>p. \<lparr>sum_function = ''d3p_'' @ fst p,
                          sum_service_id = fst p,
                          sum_name = (case name (snd p) of None \<Rightarrow> '''' | Some n \<Rightarrow> n),
                          sum_category =
                            (case capability_category (snd p) of None \<Rightarrow> '''' | Some c \<Rightarrow> c),
                          sum_sats =
                            (case pricing (snd p) of
                               None \<Rightarrow> 0
                             | Some pr \<Rightarrow> (case sats pr of None \<Rightarrow> 0 | Some n \<Rightarrow> n))\<rparr>)
                (zip ids svcs))"
    unfolding D3POpenAI_init_distinct [OF assms]
    by (simp add: list_services_def list_services_openai_loaded [OF assms(2)])
  have reg: "register_services base svcs ([], []) =
     Inr (map (\<lambda>p. (fst p,
                     service.extend (snd p)
                       (loaded_service.fields
                          (let ep = get_default (endpoint (snd p)) (''/api/services/'' @ fst p)
                           in if startswith ep ''http'' then ep else base @ ep))))
            (zip ids svcs),
          map (\<lambda>p. make_tool (fst p)
                       (let ep = get_default (endpoint (snd p)) (''/api/services/'' @ fst p)
                        in if startswith ep ''http'' then ep else base @ ep)
                       (get_default (sats (get_default (pricing (snd p)) \<lparr>sats = None\<rparr>)) 0)
                       (get_default (description (snd p)) '''' @ '' [''
                          @ get_default (capability_category (snd p)) '''' @ '', ''
                          @ str_int (get_default
                                       (sats (get_default (pricing (snd p)) \<lparr>sats = None\<rparr>)) 0)
                          @ '' sats]'')
                       (join ''; ''
                          (map (\<lambda>kv. fst kv @ '': ''
                                  @ get_default (prop_description (snd kv))
                                      (get_default (prop_type (snd kv)) ''''))
                             (get_default
                                (properties
                                   (get_default (input_schema (snd p)) \<lparr>properties = None\<rparr>))
                                []))))
              (zip ids svcs))"
    using register_services_distinct [OF assms(2,3), of "([], [])" base] by simp
  have b: "\<exists>tbl tools. mcp_module E manifest_url base = (Inr (tbl, tools), calls) \<and>
       mcp_list_services E tbl =
         Inr (json_dumps E
                (JArr (map (\<lambda>p. JObj [(''service_id'', JStr (fst p)),
                                       (''name'',
                                        JStr (case name (snd p) of None \<Rightarrow> '''' | Some n \<Rightarrow> n)),
                                       (''category'',
                                        JStr (case capability_category (snd p) of
                                                None \<Rightarrow> '''' | Some c \<Rightarrow> c)),
                                       (''sats'',
                                        JInt (case pricing (snd p) of
                                                None \<Rightarrow> 0
                                              | Some pr \<Rightarrow>
                                                  (case sats pr of None \<Rightarrow> 0 | Some n \<Rightarrow> n))),
                                       (''description'',
                                        JStr (case description (snd p) of
                                                None \<Rightarrow> '''' | Some d \<Rightarrow> d))])
                         (zip ids svcs)))
                (Some 2))"
    using assms(1)
    by (simp add: mcp_module_def reg mcp_list_services_def mcp_summary_loaded [OF assms(2)])
  from a b show ?thesis by (rule conjI)
qed

theorem listing_in_manifest_order_witness:
  "(\<exists>self. D3POpenAI_init ex_env ''https://example.test/manifest'' ''https://example.test'' True =
             (Inr self, [Get ''https://example.test/manifest'' 10]) \<and>
       list_services self =
         Inr [\<lparr>sum_function = ''d3p_btc-price'', sum_service_id = ''btc-price'', sum_name = '''',
               sum_category = '''', sum_sats = 5\<rparr>,
              \<lparr>sum_function = ''d3p_echo'', sum_service_id = ''echo'', sum_name = '''',
               sum_category = '''', sum_sats = 0\<rparr>,
              \<lparr>sum_function = ''d3p_weather'', sum_service_id = ''weather'',
               sum_name = ''Weather'', sum_category = ''data'', sum_sats = 2\<rparr>]) \<and>
    (\<exists>tbl tools. mcp_module ex_env ''https://example.test/manifest'' ''https://example.test'' =
             (Inr (tbl, tools), [Get ''https://example.test/manifest'' 10]) \<and>
       mcp_list_services ex_env tbl =
         Inr (json_dumps ex_env
                (JArr [JObj [(''service_id'', JStr ''btc-price''), (''name'', JStr ''''),
                             (''category'', JStr ''''), (''sats'', JInt 5),
                             (''description'', JStr '''')],
                       JObj [(''service_id'', JStr ''echo''), (''name'', JStr ''''),
                             (''category'', JStr ''''), (''sats'', JInt 0),
                             (''description'', JStr '''')],
                       JObj [(''service_id'', JStr ''weather''), (''name'', JStr ''Weather''),
                             (''category'', JStr ''data''), (''sats'', JInt 2),
                             (''description'', JStr ''Weather report'')]])
                (Some 2)))"
proof -
  have z: "zip [''btc-price'', ''echo'', ''weather''] ex_manifest =
             [(''btc-price'', ex_btc), (''echo'', ex_echo), (''weather'', ex_weather)]"
    by (simp add: ex_manifest_def)
  have v: "name ex_btc = None" "name ex_echo = None" "name ex_weather = Some ''Weather''"
    "capability_category ex_btc = None" "capability_category ex_echo = None"
    "capability_category ex_weather = Some ''data''"
    "pricing ex_btc = Some \<lparr>sats = Some 5\<rparr>" "pricing ex_echo = None"
    "pricing ex_weather = Some \<lparr>sats = Some 2\<rparr>"
    "description ex_btc = None" "description ex_echo = None"
    "description ex_weather = Some ''Weather report''"
    by (simp_all add: ex_btc_def ex_echo_def ex_weather_def)
  show ?thesis
    using listing_in_manifest_order [OF ex_fetch ex_ids ex_ids_distinct,
        of "''https://example.test/manifest''" "''https://example.test''" True]
    unfolding z by (simp add: v)
qed

text \<open>
  The entry \<^verbatim>\<open>btc-price\<close> has no name: both listings give it the name \<^verbatim>\<open>""\<close>, not its
  service id.
\<close>

theorem listing_name_counterexample:
  "name ex_btc = None \<and>
   list_services (ex_client True) =
     Inr [\<lparr>sum_function = ''d3p_btc-price'', sum_service_id = ''btc-price'', sum_name = '''',
           sum_category = '''', sum_sats = 5\<rparr>,
          \<lparr>sum_function = ''d3p_echo'', sum_service_id = ''echo'', sum_name = '''',
           sum_category = '''', sum_sats = 0\<rparr>,
          \<lparr>sum_function = ''d3p_weather'', sum_service_id = ''weather'',
           sum_name = ''Weather'', sum_category = ''data'', sum_sats = 2\<rparr>] \<and>
   mcp_summary
     [(''btc-price'',
       service.extend ex_btc
         (loaded_service.fields ''https://example.test/api/services/btc-price''))] =
     Inr [JObj [(''service_id'', JStr ''btc-price''), (''name'', JStr ''''),
                (''category'', JStr ''''), (''sats'', JInt 5), (''description'', JStr '''')]] \<and>
   mcp_summary
     [(''btc-price'',
       service.extend ex_btc
         (loaded_service.fields ''https://example.test/api/services/btc-price''))] \<noteq>
     Inr [JObj [(''service_id'', JStr ''btc-price''), (''name'', JStr ''btc-price''),
                (''category'', JStr ''''), (''sats'', JInt 5), (''description'', JStr '''')]]"
  by (simp add: list_services_def ex_client_def ex_table_def ex_btc_def ex_echo_def
      ex_weather_def)

lemma ex_echo_fields:
  "service_id ex_echo = Some ''echo''" "endpoint ex_echo = None" "name ex_echo = None"
  "description ex_echo = None" "capability_category ex_echo = None" "pricing ex_echo = None"
  "input_schema ex_echo = None"
  by (simp_all add: ex_echo_def)

lemma ex_btc_fields:
  "service_id ex_btc = Some ''btc-price''" "endpoint ex_btc = Some ''/api/services/btc-price''"
  "name ex_btc = None" "description ex_btc = None" "capability_category ex_btc = None"
  "pricing ex_btc = Some \<lparr>sats = Some 5\<rparr>"
  "input_schema ex_btc =
     Some \<lparr>properties =
             Some [(''currency'', \<lparr>prop_type = Some ''string'', prop_description = None\<rparr>)]\<rparr>"
  by (simp_all add: ex_btc_def)

theorem build_defaults_witness:
  "service_id ex_echo = Some ''echo'' \<and>
   tools_of_entries True ''https://example.test'' [ex_echo] =
     Inr [D3PTool_init ''echo'' (Some ex_echo) True ''https://example.test''] \<and>
   D3PTool_init ''echo'' (Some ex_echo) True ''https://example.test'' =
     \<lparr>tool_name = ''d3p_echo'',
      tool_description =
        ''Call the echo d3p service [, 0 sats]. Input fields: see docs. Pass a JSON string as payload.'',
      tool_service_id = ''echo'',
      tool_endpoint = ''https://example.test/api/services/echo'',
      pricing_sats = 0,
      tool_mock_payments = True,
      tool_base_url = ''https://example.test'',
      service_schema = \<lparr>properties = None\<rparr>\<rparr> \<and>
   tool_definition
     (''d3p_echo'',
      service.extend ex_echo (loaded_service.fields ''https://example.test/api/services/echo'')) =
     \<lparr>tool_type = ''function'',
      tool_function =
        \<lparr>fn_name = ''d3p_echo'', fn_description = '' [, 0 sats]'',
         fn_parameters =
           \<lparr>params_type = ''object'', params_properties = [], params_required = []\<rparr>\<rparr>\<rparr> \<and>
   register_services ''https://example.test'' [ex_echo] ([], []) =
     Inr ([(''echo'',
            service.extend ex_echo
              (loaded_service.fields ''https://example.test/api/services/echo''))],
          [\<lparr>reg_name = ''d3p_echo'', reg_description = '' [, 0 sats]'',
            fn_dunder_name = ''d3p_echo'',
            fn_doc = '' [, 0 sats]. Input (JSON string): see docs'',
            fn_endpoint = ''https://example.test/api/services/echo'', fn_sats = 0\<rparr>]) \<and>
   service_id ex_btc = Some ''btc-price'' \<and>
   D3PTool_init ''btc-price'' (Some ex_btc) True ''https://example.test'' =
     \<lparr>tool_name = ''d3p_btc-price'',
      tool_description =
        ''Call the btc-price d3p service [, 5 sats]. Input fields: currency (string). Pass a JSON string as payload.'',
      tool_service_id = ''btc-price'',
      tool_endpoint = ''https://example.test/api/services/btc-price'',
      pricing_sats = 5,
      tool_mock_payments = True,
      tool_base_url = ''https://example.test'',
      service_schema =
        \<lparr>properties =
           Some [(''currency'', \<lparr>prop_type = Some ''string'', prop_description = None\<rparr>)]\<rparr>\<rparr> \<and>
   fn_description (tool_function
      (tool_definition
         (''d3p_btc-price'',
          service.extend ex_btc
            (loaded_service.fields ''https://example.test/api/services/btc-price'')))) =
     '' [, 5 sats]''"
proof -
  note e = build_defaults [OF ex_echo_fields(1) refl refl refl,
      of True "''https://example.test''" "''d3p_echo''"
         "''https://example.test/api/services/echo''"]
  note b = build_defaults [OF ex_btc_fields(1) refl refl refl,
      of True "''https://example.test''" "''d3p_btc-price''"
         "''https://example.test/api/services/btc-price''"]
  have e1: "tools_of_entries True ''https://example.test'' [ex_echo] =
     Inr [D3PTool_init ''echo'' (Some ex_echo) True ''https://example.test'']"
    using e by (rule conjunct1)
  have e2: "D3PTool_init ''echo'' (Some ex_echo) True ''https://example.test'' =
     \<lparr>tool_name = ''d3p_echo'',
      tool_description =
        ''Call the echo d3p service [, 0 sats]. Input fields: see docs. Pass a JSON string as payload.'',
      tool_service_id = ''echo'',
      tool_endpoint = ''https://example.test/api/services/echo'',
      pricing_sats = 0,
      tool_mock_payments = True,
      tool_base_url = ''https://example.test'',
      service_schema = \<lparr>properties = None\<rparr>\<rparr>"
    using e [THEN conjunct2, THEN conjunct2, THEN conjunct2, THEN conjunct1]
    by (simp add: ex_echo_fields str_int_0)
  have e3: "tool_definition
     (''d3p_echo'',
      service.extend ex_echo (loaded_service.fields ''https://example.test/api/services/echo'')) =
     \<lparr>tool_type = ''function'',
      tool_function =
        \<lparr>fn_name = ''d3p_echo'', fn_description = '' [, 0 sats]'',
         fn_parameters =
           \<lparr>params_type = ''object'', params_properties = [], params_required = []\<rparr>\<rparr>\<rparr>"
    using e [THEN conjunct2, THEN conjunct2, THEN conjunct2, THEN conjunct2, THEN conjunct2,
        THEN conjunct1]
    by (simp add: ex_echo_fields str_int_0)
  have e4: "register_services ''https://example.test'' [ex_echo] ([], []) =
     Inr ([(''echo'',
            service.extend ex_echo
              (loaded_service.fields ''https://example.test/api/services/echo''))],
          [\<lparr>reg_name = ''d3p_echo'', reg_description = '' [, 0 sats]'',
            fn_dunder_name = ''d3p_echo'',
            fn_doc = '' [, 0 sats]. Input (JSON string): see docs'',
            fn_endpoint = ''https://example.test/api/services/echo'', fn_sats = 0\<rparr>])"
    using e [THEN conjunct2, THEN conjunct2, THEN conjunct2, THEN conjunct2, THEN conjunct2,
        THEN conjunct2, THEN conjunct1]
    by (simp add: ex_echo_fields str_int_0 del: register_services.simps)
  have b1: "D3PTool_init ''btc-price'' (Some ex_btc) True ''https://example.test'' =
     \<lparr>tool_name = ''d3p_btc-price'',
      tool_description =
        ''Call the btc-price d3p service [, 5 sats]. Input fields: currency (string). Pass a JSON string as payload.'',
      tool_service_id = ''btc-price'',
      tool_endpoint = ''https://example.test/api/services/btc-price'',
      pricing_sats = 5,
      tool_mock_payments = True,
      tool_base_url = ''https://example.test'',
      service_schema =
        \<lparr>properties =
           Some [(''currency'', \<lparr>prop_type = Some ''string'', prop_description = None\<rparr>)]\<rparr>\<rparr>"
    using b [THEN conjunct2, THEN conjunct2, THEN conjunct2, THEN conjunct1]
    by (simp add: ex_btc_fields str_int_5 startswith_def)
  have b2: "fn_description (tool_function
      (tool_definition
         (''d3p_btc-price'',
          service.extend ex_btc
            (loaded_service.fields ''https://example.test/api/services/btc-price'')))) =
     '' [, 5 sats]''"
    using b [THEN conjunct2, THEN conjunct2, THEN conjunct2, THEN conjunct2, THEN conjunct2,
        THEN conjunct1]
    by (simp add: ex_btc_fields str_int_5)
  from ex_echo_fields(1) e1 e2 e3 e4 ex_btc_fields(1) b1 b2 show ?thesis
    by (intro conjI)
qed

text \<open>
  The entry \<^verbatim>\<open>echo\<close> has no description. The MCP module registers it with the description
  \<^verbatim>\<open> [, 0 sats]\<close> and the OpenAI wrapper describes it the same way: the absent description
  is the empty string there, not a generated text, and neither description says
  \<^verbatim>\<open>see docs\<close>.
\<close>

theorem generated_description_counterexample:
  "description ex_echo = None \<and>
   register_services ''https://example.test'' [ex_echo] ([], []) =
     Inr ([(''echo'',
            service.extend ex_echo
              (loaded_service.fields ''https://example.test/api/services/echo''))],
          [\<lparr>reg_name = ''d3p_echo'', reg_description = '' [, 0 sats]'',
            fn_dunder_name = ''d3p_echo'',
            fn_doc = '' [, 0 sats]. Input (JSON string): see docs'',
            fn_endpoint = ''https://example.test/api/services/echo'', fn_sats = 0\<rparr>]) \<and>
   fn_description (tool_function
      (tool_definition
         (''d3p_echo'',
          service.extend ex_echo
            (loaded_service.fields ''https://example.test/api/services/echo'')))) =
     '' [, 0 sats]''"
  by (simp add: ex_echo_fields Let_def make_tool_def str_or_def str_int_0 startswith_def
      tool_definition_def)

lemma ex_params:
  "map (\<lambda>svc.
          \<lparr>params_type = ''object'',
           params_properties =
             (case input_schema svc of
                None \<Rightarrow> []
              | Some sch \<Rightarrow> (case properties sch of None \<Rightarrow> [] | Some ps \<Rightarrow> ps)),
           params_required =
             map fst
               (case input_schema svc of
                  None \<Rightarrow> []
                | Some sch \<Rightarrow> (case properties sch of None \<Rightarrow> [] | Some ps \<Rightarrow> ps))\<rparr>)
     ex_manifest =
   [\<lparr>params_type = ''object'',
     params_properties = [(''currency'', \<lparr>prop_type = Some ''string'', prop_description = None\<rparr>)],
     params_required = [''currency'']\<rparr>,
    \<lparr>params_type = ''object'', params_properties = [], params_required = []\<rparr>,
    \<lparr>params_type = ''object'', params_properties = [], params_required = []\<rparr>]"
  by (simp add: ex_manifest_def ex_btc_def ex_echo_def ex_weather_def)

theorem parameter_schema_all_required_witness:
  "(\<exists>self. D3POpenAI_init ex_env ''https://example.test/manifest'' ''https://example.test'' True =
             (Inr self, [Get ''https://example.test/manifest'' 10]) \<and>
        map (\<lambda>d. fn_parameters (tool_function d)) (tool_definitions self) =
          [\<lparr>params_type = ''object'',
            params_properties =
              [(''currency'', \<lparr>prop_type = Some ''string'', prop_description = None\<rparr>)],
            params_required = [''currency'']\<rparr>,
           \<lparr>params_type = ''object'', params_properties = [], params_required = []\<rparr>,
           \<lparr>params_type = ''object'', params_properties = [], params_required = []\<rparr>]) \<and>
   params_required (fn_parameters (tool_function (tool_definition
      (''d3p_btc-price'',
       service.extend ex_btc
         (loaded_service.fields ''https://example.test/api/services/btc-price''))))) =
     [''currency'']"
proof -
  note t = parameter_schema_all_required [OF ex_fetch ex_ids ex_ids_distinct,
      of "''https://example.test/manifest''" "''https://example.test''" True "''d3p_btc-price''"
         "service.extend ex_btc
            (loaded_service.fields ''https://example.test/api/services/btc-price'')"]
  have a: "\<exists>self. D3POpenAI_init ex_env ''https://example.test/manifest''
                    ''https://example.test'' True =
             (Inr self, [Get ''https://example.test/manifest'' 10]) \<and>
        map (\<lambda>d. fn_parameters (tool_function d)) (tool_definitions self) =
          [\<lparr>params_type = ''object'',
            params_properties =
              [(''currency'', \<lparr>prop_type = Some ''string'', prop_description = None\<rparr>)],
            params_required = [''currency'']\<rparr>,
           \<lparr>params_type = ''object'', params_properties = [], params_required = []\<rparr>,
           \<lparr>params_type = ''object'', params_properties = [], params_required = []\<rparr>]"
    using t [THEN conjunct1] by (simp only: ex_params)
  have b: "params_required (fn_parameters (tool_function (tool_definition
      (''d3p_btc-price'',
       service.extend ex_btc
         (loaded_service.fields ''https://example.test/api/services/btc-price''))))) =
     [''currency'']"
    by (simp add: tool_definition_def Let_def ex_btc_def)
  from a b show ?thesis by (rule conjI)
qed

end
